theory Spec2Isabelle
  imports Complex_Main "HOL-Library.Multiset" "HOL-Library.Sublist"
begin

section \<open>Embedding of painel5222_v4.5.py\<close>

text \<open>
  The analysis panel is a Python script. Its pure functions are embedded as HOL
  functions of the same name. Python floats are read as real numbers (no rounding
  error, no overflow); a missing value of a statement table (pandas NaN) is
  \<open>None\<close> of an option type. Strings are ASCII texts.
\<close>

subsection \<open>Constants\<close>

definition MAX_WORKERS_THREAD_POOL :: nat where
  "MAX_WORKERS_THREAD_POOL = 5"

definition MULTIPLICADOR_GRAHAM :: real where
  "MULTIPLICADOR_GRAHAM = 22.5"

definition MAX_TICKERS_PERMITIDOS :: nat where
  "MAX_TICKERS_PERMITIDOS = 20"

subsection \<open>Python string operations used by the validation functions\<close>

text \<open>\<open>str.isspace\<close> on ASCII: tab, line feed, vertical tab, form feed, carriage
  return, the four separators 0x1C..0x1F and the blank.\<close>

definition is_space :: "char \<Rightarrow> bool" where
  "is_space c = (c \<in> set [CHR 0x09, CHR 0x0A, CHR 0x0B, CHR 0x0C, CHR 0x0D,
                           CHR 0x1C, CHR 0x1D, CHR 0x1E, CHR 0x1F, CHR 0x20])"

definition strip :: "string \<Rightarrow> string" where
  "strip s = rev (dropWhile is_space (rev (dropWhile is_space s)))"

text \<open>\<open>str.upper\<close> on ASCII: the letters a..z change, nothing else does.\<close>

definition upper_char :: "char \<Rightarrow> char" where
  "upper_char c =
     (case map_of (zip ''abcdefghijklmnopqrstuvwxyz'' ''ABCDEFGHIJKLMNOPQRSTUVWXYZ'') c of
        None \<Rightarrow> c
      | Some u \<Rightarrow> u)"

definition upper :: "string \<Rightarrow> string" where
  "upper s = map upper_char s"

text \<open>\<open>s.split(',')\<close>: the pieces between separators, empty pieces included;
  the empty string gives one empty piece.\<close>

fun split_on :: "char \<Rightarrow> string \<Rightarrow> string list" where
  "split_on sep [] = [[]]"
| "split_on sep (c # cs) =
     (if c = sep then [] # split_on sep cs
      else (case split_on sep cs of
              [] \<Rightarrow> [[c]]
            | w # ws \<Rightarrow> (c # w) # ws))"

text \<open>The string operations above are those of Python on ASCII text: beyond ASCII,
  \<open>strip\<close> removes further characters and \<open>upper\<close> changes further letters.
  \<open>ascii_text\<close> says that a text is in the domain of the embedding.\<close>

definition ascii_text :: "string \<Rightarrow> bool" where
  "ascii_text s = list_all (\<lambda>c. (of_char c :: nat) < 128) s"

text \<open>The character class \<open>[A-Z0-9\.\-]\<close>.\<close>

definition ticker_char :: "char \<Rightarrow> bool" where
  "ticker_char c = (c \<in> set ''ABCDEFGHIJKLMNOPQRSTUVWXYZ0123456789.-'')"

text \<open>\<open>re.compile(r'^[A-Z0-9\.\-]+$').match(s)\<close>. Without the MULTILINE flag
  \<open>$\<close> matches at the end of the string and also just before a line feed that
  ends the string.\<close>

definition padrao_match :: "string \<Rightarrow> bool" where
  "padrao_match s =
     (let body = (if s \<noteq> [] \<and> last s = CHR 0x0A then butlast s else s)
      in body \<noteq> [] \<and> list_all ticker_char body)"

subsection \<open>Validation and sanitisation\<close>

definition validar_ticker :: "string \<Rightarrow> bool" where
  "validar_ticker ticker =
     (if ticker = [] then False else padrao_match (upper (strip ticker)))"

text \<open>The two \<open>st.warning\<close> calls of \<open>sanitizar_tickers\<close> only display text and
  leave the returned list as it is; the embedding returns the list.\<close>

definition sanitizar_tickers :: "string \<Rightarrow> string list" where
  "sanitizar_tickers ticker_input =
     (if ticker_input = [] then []
      else
        let tickers_brutos =
              map (\<lambda>t. upper (strip t))
                  (filter (\<lambda>t. strip t \<noteq> []) (split_on (CHR '','') ticker_input));
            tickers_validos = filter validar_ticker tickers_brutos
        in if length tickers_validos > MAX_TICKERS_PERMITIDOS
           then take MAX_TICKERS_PERMITIDOS tickers_validos
           else tickers_validos)"

definition validar_anos :: "int \<Rightarrow> bool" where
  "validar_anos anos = (1 \<le> anos \<and> anos \<le> 20)"

definition validar_taxa_retorno :: "real \<Rightarrow> bool" where
  "validar_taxa_retorno taxa = (0.1 \<le> taxa \<and> taxa \<le> 100.0)"

subsection \<open>Valuation formulas\<close>

definition calcular_preco_teto_bazin :: "real \<Rightarrow> real \<Rightarrow> real" where
  "calcular_preco_teto_bazin media_dpa taxa_retorno =
     (if media_dpa > 0 \<and> taxa_retorno > 0 then media_dpa / taxa_retorno else 0.0)"

definition calcular_margem_seguranca :: "real \<Rightarrow> real \<Rightarrow> real" where
  "calcular_margem_seguranca preco_teto preco_atual =
     (if preco_atual > 0 \<and> preco_teto > 0
      then ((preco_teto / preco_atual) - 1) * 100
      else - 100.0)"

subsection \<open>Python and pandas helpers\<close>

text \<open>Every exception of the script ends in an \<open>except Exception\<close> handler; the
  embedding keeps the kind of the exception where a handler is selective.\<close>

datatype py_error = GatewayError | TypeError | ValueError | IndexError | KeyError

text \<open>\<open>df.head(n)\<close>: the first \<open>n\<close> rows; for negative \<open>n\<close> all rows but the
  last \<open>-n\<close>.\<close>

definition py_head :: "int \<Rightarrow> 'a list \<Rightarrow> 'a list" where
  "py_head n xs = (if 0 \<le> n then take (nat n) xs else take (length xs - nat (- n)) xs)"

text \<open>\<open>xs[start:]\<close>: a negative \<open>start\<close> counts from the end and is clipped at
  the first element.\<close>

definition py_slice_from :: "int \<Rightarrow> 'a list \<Rightarrow> 'a list" where
  "py_slice_from start xs =
     (if 0 \<le> start then drop (nat start) xs else drop (length xs - nat (- start)) xs)"

text \<open>Rounding to the nearest integer, ties to the even one, and \<open>round(x, 2)\<close>.\<close>

definition rint :: "real \<Rightarrow> int" where
  "rint x =
     (let f = \<lfloor>x\<rfloor>; d = x - of_int f
      in if d < 1 / 2 then f
         else if 1 / 2 < d then f + 1
         else if even f then f else f + 1)"

definition py_round2 :: "real \<Rightarrow> real" where
  "py_round2 x = of_int (rint (x * 100)) / 100"

text \<open>\<open>Series.mean()\<close> and \<open>Series.median()\<close> of a non-empty series without
  missing values.\<close>

definition mean_list :: "real list \<Rightarrow> real" where
  "mean_list xs = sum_list xs / of_nat (length xs)"

definition median_list :: "real list \<Rightarrow> real" where
  "median_list xs =
     (let s = sort xs; n = length s
      in if odd n then s ! (n div 2)
         else (s ! (n div 2 - 1) + s ! (n div 2)) / 2)"

subsection \<open>Timestamps and annual dividend frames\<close>

text \<open>A timestamp carries its instant (seconds since the epoch) and the calendar
  year and month that \<open>.year\<close> and \<open>.month\<close> read from it.\<close>

record timestamp =
  t_epoch :: int
  t_year :: int
  t_month :: nat

text \<open>\<open>ticker.dividends\<close>: a series of amounts indexed by timestamp.\<close>

type_synonym dividends = "(timestamp \<times> real) list"

text \<open>A row of the annual frame with the columns \<open>Ano\<close>, \<open>DPA\<close>, \<open>Ticker\<close>.\<close>

record linha_dpa =
  Ano :: int
  DPA :: real
  Ticker :: string

text \<open>\<open>df.sort_values('Ano', ascending=...)\<close>. The frames sorted by year have one
  row per year, so the sorted frame does not depend on the sorting algorithm.\<close>

definition sort_values_Ano :: "bool \<Rightarrow> linha_dpa list \<Rightarrow> linha_dpa list" where
  "sort_values_Ano ascending df =
     (if ascending then sort_key Ano df else sort_key (\<lambda>r. - Ano r) df)"

text \<open>\<open>timedelta(days=n)\<close> in seconds.\<close>

definition timedelta_days :: "int \<Rightarrow> int" where
  "timedelta_days n = n * 86400"

text \<open>\<open>serie.resample('YE').sum().reset_index()\<close> with the columns renamed and the
  ticker added: one row for every calendar year from the earliest to the latest
  observation, a year without observation having the sum 0.\<close>

definition resample_YE_sum :: "string \<Rightarrow> dividends \<Rightarrow> linha_dpa list" where
  "resample_YE_sum ticker_symbol serie =
     (if serie = [] then []
      else
        let ys = map (\<lambda>(t, v). t_year t) serie;
            lo = fold min ys (hd ys);
            hi = fold max ys (hd ys)
        in map (\<lambda>y. \<lparr>Ano = y,
                      DPA = sum_list (map snd (filter (\<lambda>(t, v). t_year t = y) serie)),
                      Ticker = ticker_symbol\<rparr>) [lo..hi])"

text \<open>\<open>obter_dados_dpa\<close>. \<open>now\<close> is the reading of \<open>datetime.now(fuso_horario)\<close>;
  \<open>resposta\<close> is what \<open>ticker.dividends\<close> gives: the series, or an exception.
  The result is the frame, the mean, the median and the error, if any.\<close>

definition obter_dados_dpa ::
  "timestamp \<Rightarrow> py_error + dividends \<Rightarrow> string \<Rightarrow> int
     \<Rightarrow> linha_dpa list \<times> real \<times> real \<times> py_error option" where
  "obter_dados_dpa now resposta ticker_symbol anos =
     (let end_date = t_epoch now;
          start_date = end_date - timedelta_days (anos * 365)
      in case resposta of
           Inl e \<Rightarrow> ([], 0.0, 0.0, Some e)
         | Inr dividends \<Rightarrow>
             if dividends = [] then ([], 0.0, 0.0, None)
             else
               let div_filtrado =
                     filter (\<lambda>(t, v). start_date \<le> t_epoch t \<and> t_epoch t \<le> end_date) dividends;
                   div_anual = resample_YE_sum ticker_symbol div_filtrado;
                   div_completo = filter (\<lambda>r. Ano r < t_year now) div_anual;
                   div_completo = py_head anos (sort_values_Ano False div_completo);
                   media_dpa = (if div_completo \<noteq> [] then mean_list (map DPA div_completo) else 0.0);
                   mediana_dpa = (if div_completo \<noteq> [] then median_list (map DPA div_completo) else 0.0);
                   div_completo = sort_values_Ano True div_completo
               in (div_completo, media_dpa, mediana_dpa, None))"

subsection \<open>Metrics on the annual frame\<close>

text \<open>\<open>calcular_cagr_dpa\<close>; \<open>ano_corrente\<close> is \<open>datetime.now(fuso_horario).year\<close>.\<close>

definition calcular_cagr_dpa :: "int \<Rightarrow> linha_dpa list \<Rightarrow> int \<Rightarrow> real" where
  "calcular_cagr_dpa ano_corrente df_dpa anos =
     (if df_dpa = [] \<or> length df_dpa < 2 then 0.0
      else
        let df_completo = filter (\<lambda>r. Ano r < ano_corrente) df_dpa
        in if length df_completo < 2 then 0.0
           else
             let df_completo = py_head anos (sort_values_Ano False df_completo)
             in if length df_completo < 2 then 0.0
                else
                  let df_completo = sort_values_Ano True df_completo;
                      valor_inicial = DPA (hd df_completo);
                      valor_final = DPA (last df_completo)
                  in if valor_inicial \<le> 0 \<or> valor_final \<le> 0 then 0.0
                     else
                       let num_anos = length df_completo - 1;
                           cagr = ((valor_final / valor_inicial) powr (1 / of_nat num_anos) - 1) * 100
                       in py_round2 cagr)"

text \<open>The loop of \<open>calcular_anos_consecutivos\<close>: it counts rows until the first
  row whose DPA is not positive, where it breaks.\<close>

fun conta_consecutivos :: "linha_dpa list \<Rightarrow> nat \<Rightarrow> nat" where
  "conta_consecutivos [] anos_consecutivos = anos_consecutivos"
| "conta_consecutivos (row # rows) anos_consecutivos =
     (if DPA row > 0 then conta_consecutivos rows (anos_consecutivos + 1)
      else anos_consecutivos)"

definition calcular_anos_consecutivos :: "int \<Rightarrow> linha_dpa list \<Rightarrow> nat" where
  "calcular_anos_consecutivos ano_corrente df_dpa =
     (if df_dpa = [] then 0
      else
        let df_completo = filter (\<lambda>r. Ano r < ano_corrente) df_dpa
        in if df_completo = [] then 0
           else conta_consecutivos (sort_values_Ano False df_completo) 0)"

text \<open>The reading of the specification for the DPA growth rate, to compare with
  \<open>calcular_cagr_dpa\<close>: the formula between the first and the last positive value of
  the window, over the years between them, and 0 with fewer than two positive
  points.\<close>

definition cagr_dpa_spec :: "linha_dpa list \<Rightarrow> real" where
  "cagr_dpa_spec janela =
     (let positivos = filter (\<lambda>r. DPA r > 0) (sort_values_Ano True janela)
      in if length positivos < 2 then 0
         else
           let primeiro = hd positivos; ultimo = last positivos
           in py_round2
                (((DPA ultimo / DPA primeiro) powr (1 / of_int (Ano ultimo - Ano primeiro)) - 1) * 100))"

subsection \<open>Provider values\<close>

text \<open>A value of the dictionary \<open>ticker.info\<close> (decoded JSON): \<open>None\<close>, a number or
  a text. A text of this dictionary (a sector name and the like) is not a numeral, so
  \<open>float\<close> of it raises ValueError.\<close>

datatype info_val = INone | INum real | IStr string

type_synonym info = "string \<rightharpoonup> info_val"

text \<open>\<open>info.get(k)\<close>: an absent key reads as \<open>None\<close>.\<close>

definition info_get :: "info \<Rightarrow> string \<Rightarrow> info_val" where
  "info_get info k = (case info k of None \<Rightarrow> INone | Some v \<Rightarrow> v)"

text \<open>The truth value of a Python value, and \<open>a or b\<close>.\<close>

fun truthy :: "info_val \<Rightarrow> bool" where
  "truthy INone = False"
| "truthy (INum x) = (x \<noteq> 0)"
| "truthy (IStr s) = (s \<noteq> [])"

definition py_or :: "info_val \<Rightarrow> info_val \<Rightarrow> info_val" where
  "py_or a b = (if truthy a then a else b)"

fun py_float :: "info_val \<Rightarrow> py_error + real" where
  "py_float INone = Inl TypeError"
| "py_float (INum x) = Inr x"
| "py_float (IStr s) = Inl ValueError"

text \<open>\<open>x > 0\<close> and \<open>x <= 0\<close> on a Python value: ordering \<open>None\<close> or a text against
  a number raises TypeError.\<close>

fun py_gt0 :: "info_val \<Rightarrow> py_error + bool" where
  "py_gt0 (INum x) = Inr (0 < x)"
| "py_gt0 v = Inl TypeError"

fun py_le0 :: "info_val \<Rightarrow> py_error + bool" where
  "py_le0 (INum x) = Inr (x \<le> 0)"
| "py_le0 v = Inl TypeError"

text \<open>A value computed by the script: like a provider value, or the float NaN, which
  arises from the missing cells of a statement table.\<close>

datatype pyval = PNone | PNum real | PNaN | PStr string

fun of_info :: "info_val \<Rightarrow> pyval" where
  "of_info INone = PNone"
| "of_info (INum x) = PNum x"
| "of_info (IStr s) = PStr s"

subsection \<open>Statement tables\<close>

text \<open>A cell of a statement table is a float; \<open>None\<close> is NaN. A table has its
  column labels (dates, as day numbers) and its rows: a line-item name with one cell per
  column.\<close>

type_synonym cell = "real option"

type_synonym serie = "(int \<times> cell) list"

record tabela =
  colunas :: "int list"
  linhas :: "(string \<times> cell list) list"

definition tb_empty :: "tabela \<Rightarrow> bool" where
  "tb_empty df = (linhas df = [] \<or> colunas df = [])"

definition in_index :: "tabela \<Rightarrow> string \<Rightarrow> bool" where
  "in_index df k = (k \<in> set (map fst (linhas df)))"

text \<open>\<open>next((k for k in chaves if k in df.index), None)\<close>.\<close>

definition primeira_chave :: "tabela \<Rightarrow> string list \<Rightarrow> string option" where
  "primeira_chave df chaves = find (in_index df) chaves"

text \<open>\<open>df.loc[k]\<close>: the row as a series indexed by the column labels.\<close>

definition tb_loc :: "tabela \<Rightarrow> string \<Rightarrow> py_error + serie" where
  "tb_loc df k =
     (case map_of (linhas df) k of
        None \<Rightarrow> Inl KeyError
      | Some cells \<Rightarrow> Inr (zip (colunas df) cells))"

text \<open>\<open>serie.iloc[0]\<close>.\<close>

definition iloc0 :: "serie \<Rightarrow> py_error + cell" where
  "iloc0 s = (case s of [] \<Rightarrow> Inl IndexError | (d, c) # _ \<Rightarrow> Inr c)"

definition loc_iloc0 :: "tabela \<Rightarrow> string \<Rightarrow> py_error + cell" where
  "loc_iloc0 df k = (case tb_loc df k of Inl e \<Rightarrow> Inl e | Inr s \<Rightarrow> iloc0 s)"

text \<open>Float arithmetic with NaN: a NaN operand gives NaN. A NaN is true as a
  condition and different from 0.\<close>

definition nan_div :: "cell \<Rightarrow> cell \<Rightarrow> cell" where
  "nan_div a b = (case (a, b) of (Some x, Some y) \<Rightarrow> Some (x / y) | _ \<Rightarrow> None)"

definition nan_add :: "cell \<Rightarrow> cell \<Rightarrow> cell" where
  "nan_add a b = (case (a, b) of (Some x, Some y) \<Rightarrow> Some (x + y) | _ \<Rightarrow> None)"

definition nan_abs :: "cell \<Rightarrow> cell" where
  "nan_abs a = map_option abs a"

definition cell_truthy :: "cell \<Rightarrow> bool" where
  "cell_truthy a = (a \<noteq> Some 0)"

fun of_cell :: "cell \<Rightarrow> pyval" where
  "of_cell None = PNaN"
| "of_cell (Some x) = PNum x"

subsection \<open>The Market Data Gateway\<close>

text \<open>What the provider answers for one ticker: each attribute of \<open>yf.Ticker\<close>
  gives its value or raises. A statement attribute may be \<open>None\<close>. The attributes
  answer the same at every read during one run.\<close>

type_synonym history = "(timestamp \<times> real) list"

record gateway =
  gw_info :: "py_error + info"
  gw_dividends :: "py_error + dividends"
  gw_history :: "py_error + history"
  gw_balance_sheet :: "py_error + tabela option"
  gw_financials :: "py_error + tabela option"
  gw_cashflow :: "py_error + tabela option"

text \<open>The reads of the provider that a function makes, in order.\<close>

datatype acesso = AInfo | ADividends | AHistory | ABalanceSheet | AFinancials | ACashflow

subsection \<open>Fundamental indicators\<close>

definition chaves_divida :: "string list" where
  "chaves_divida = [''Total Debt'', ''Long Term Debt'', ''Short Long Term Debt'']"

definition chaves_pl :: "string list" where
  "chaves_pl = [''Stockholders Equity'', ''Total Stockholder Equity'', ''Common Stock Equity'']"

definition chaves_ebit :: "string list" where
  "chaves_ebit = [''EBIT'', ''Operating Income'']"

definition chaves_da :: "string list" where
  "chaves_da = [''Depreciation And Amortization'', ''Depreciation'', ''Reconciled Depreciation'']"

definition usable :: "tabela option \<Rightarrow> bool" where
  "usable df = (case df of None \<Rightarrow> False | Some t \<Rightarrow> \<not> tb_empty t)"

text \<open>The body of the \<open>try\<close> of the debt-to-equity fallback, after the balance sheet is
  read: the new value of \<open>divida_pl\<close> (it was \<open>None\<close>), or the exception.\<close>

definition divida_pl_balanco :: "tabela option \<Rightarrow> py_error + pyval" where
  "divida_pl_balanco bs =
     (case bs of
        None \<Rightarrow> Inr PNone
      | Some bs \<Rightarrow>
          if tb_empty bs then Inr PNone
          else
            (case (primeira_chave bs chaves_divida, primeira_chave bs chaves_pl) of
               (Some chave_divida, Some chave_pl) \<Rightarrow>
                 (case loc_iloc0 bs chave_divida of
                    Inl e \<Rightarrow> Inl e
                  | Inr divida_valor \<Rightarrow>
                      (case loc_iloc0 bs chave_pl of
                         Inl e \<Rightarrow> Inl e
                       | Inr pl_valor \<Rightarrow>
                           if cell_truthy pl_valor \<and> pl_valor \<noteq> Some 0
                           then Inr (of_cell (nan_div divida_valor pl_valor))
                           else Inr PNone))
             | _ \<Rightarrow> Inr PNone))"

text \<open>The debt-to-equity fallback with its handler, and the reads it makes.\<close>

definition fallback_divida_pl :: "gateway \<Rightarrow> pyval \<times> acesso list" where
  "fallback_divida_pl gw =
     (case gw_balance_sheet gw of
        Inl e \<Rightarrow> (PNone, [ABalanceSheet])
      | Inr bs \<Rightarrow>
          (case divida_pl_balanco bs of
             Inl e \<Rightarrow> (PNone, [ABalanceSheet])
           | Inr v \<Rightarrow> (v, [ABalanceSheet])))"

text \<open>The body of the \<open>try\<close> of the debt-to-EBITDA fallback, after the three statements
  are read.\<close>

definition divida_ebitda_demonstracoes ::
  "tabela option \<Rightarrow> tabela option \<Rightarrow> tabela option \<Rightarrow> py_error + pyval" where
  "divida_ebitda_demonstracoes bs fin cf =
     (if usable bs \<and> usable fin \<and> usable cf then
        (case (bs, fin, cf) of
           (Some bs, Some fin, Some cf) \<Rightarrow>
             (case (primeira_chave bs chaves_divida, primeira_chave fin chaves_ebit,
                    primeira_chave cf chaves_da) of
                (Some chave_divida, Some chave_ebit, Some chave_da) \<Rightarrow>
                  (case loc_iloc0 bs chave_divida of
                     Inl e \<Rightarrow> Inl e
                   | Inr divida_valor \<Rightarrow>
                       (case loc_iloc0 fin chave_ebit of
                          Inl e \<Rightarrow> Inl e
                        | Inr ebit_valor \<Rightarrow>
                            (case loc_iloc0 cf chave_da of
                               Inl e \<Rightarrow> Inl e
                             | Inr da_valor \<Rightarrow>
                                 let ebitda_valor = nan_add ebit_valor (nan_abs da_valor)
                                 in if cell_truthy ebitda_valor \<and> ebitda_valor \<noteq> Some 0
                                    then Inr (of_cell (nan_div divida_valor ebitda_valor))
                                    else Inr PNone)))
              | _ \<Rightarrow> Inr PNone)
         | _ \<Rightarrow> Inr PNone)
      else Inr PNone)"

text \<open>The debt-to-EBITDA fallback with its handler: the statements are read one after
  the other, and a read that raises ends the \<open>try\<close>.\<close>

definition fallback_divida_ebitda :: "gateway \<Rightarrow> pyval \<times> acesso list" where
  "fallback_divida_ebitda gw =
     (case gw_balance_sheet gw of
        Inl e \<Rightarrow> (PNone, [ABalanceSheet])
      | Inr bs \<Rightarrow>
          (case gw_financials gw of
             Inl e \<Rightarrow> (PNone, [ABalanceSheet, AFinancials])
           | Inr fin \<Rightarrow>
               (case gw_cashflow gw of
                  Inl e \<Rightarrow> (PNone, [ABalanceSheet, AFinancials, ACashflow])
                | Inr cf \<Rightarrow>
                    (case divida_ebitda_demonstracoes bs fin cf of
                       Inl e \<Rightarrow> (PNone, [ABalanceSheet, AFinancials, ACashflow])
                     | Inr v \<Rightarrow> (v, [ABalanceSheet, AFinancials, ACashflow])))))"

text \<open>The dictionary returned by \<open>obter_dados_fundamentalistas\<close>, extended by the two
  growth rates that \<open>processar_ticker\<close> adds with \<open>update\<close>. A key that the dictionary
  does not have reads as \<open>None\<close>, as \<open>dict.get\<close> does.\<close>

record fundamentos =
  f_Ticker :: string
  P_L :: info_val
  P_VP :: info_val
  ROE :: info_val
  DY :: info_val
  Setor :: info_val
  Divida_PL :: pyval
  Divida_EBITDA :: pyval
  EV_EBITDA :: info_val
  LPA :: info_val
  VPA :: info_val
  dividendRate :: info_val
  CAGR_Receita_5a :: pyval
  CAGR_Lucro_5a :: pyval

definition so_ticker :: "string \<Rightarrow> fundamentos" where
  "so_ticker ticker_symbol =
     \<lparr>f_Ticker = ticker_symbol, P_L = INone, P_VP = INone, ROE = INone, DY = INone,
      Setor = INone, Divida_PL = PNone, Divida_EBITDA = PNone, EV_EBITDA = INone,
      LPA = INone, VPA = INone, dividendRate = INone,
      CAGR_Receita_5a = PNone, CAGR_Lucro_5a = PNone\<rparr>"

text \<open>\<open>obter_dados_fundamentalistas\<close>: the dictionary and the reads of the provider.\<close>

definition obter_dados_fundamentalistas :: "gateway \<Rightarrow> string \<Rightarrow> fundamentos \<times> acesso list" where
  "obter_dados_fundamentalistas gw ticker_symbol =
     (case gw_info gw of
        Inl e \<Rightarrow> (so_ticker ticker_symbol, [AInfo])
      | Inr info \<Rightarrow>
          let divida_pl =
                (if info_get info ''debtToEquity'' \<noteq> INone
                 then (case py_float (info_get info ''debtToEquity'') of
                         Inl e \<Rightarrow> PNone
                       | Inr x \<Rightarrow> PNum (x / 100))
                 else PNone);
              (divida_pl, acessos_pl) =
                (if divida_pl = PNone then fallback_divida_pl gw else (divida_pl, []));
              divida_ebitda = of_info (info_get info ''debtToEbitda'');
              (divida_ebitda, acessos_ebitda) =
                (if divida_ebitda = PNone then fallback_divida_ebitda gw else (divida_ebitda, []))
          in (\<lparr>f_Ticker = ticker_symbol,
               P_L = info_get info ''trailingPE'',
               P_VP = info_get info ''priceToBook'',
               ROE = info_get info ''returnOnEquity'',
               DY = info_get info ''dividendYield'',
               Setor = info_get info ''sector'',
               Divida_PL = divida_pl,
               Divida_EBITDA = divida_ebitda,
               EV_EBITDA = info_get info ''enterpriseToEbitda'',
               LPA = info_get info ''trailingEps'',
               VPA = info_get info ''bookValue'',
               dividendRate = info_get info ''dividendRate'',
               CAGR_Receita_5a = PNone, CAGR_Lucro_5a = PNone\<rparr>,
              [AInfo] @ acessos_pl @ acessos_ebitda))"

subsection \<open>Current price\<close>

definition obter_preco_atual :: "gateway \<Rightarrow> real" where
  "obter_preco_atual gw =
     (case gw_info gw of
        Inl e \<Rightarrow> 0.0
      | Inr info \<Rightarrow>
          let preco = py_or (py_or (info_get info ''regularMarketPrice'')
                                   (info_get info ''currentPrice''))
                            (INum 0.0)
          in (case py_float preco of Inl e \<Rightarrow> 0.0 | Inr p \<Rightarrow> p))"

subsection \<open>Growth of revenue and of net income\<close>

text \<open>\<open>serie.sort_index()\<close>: by column label, ascending; the labels of a statement
  are distinct dates.\<close>

definition sort_index :: "serie \<Rightarrow> serie" where
  "sort_index s = sort_key fst s"

text \<open>\<open>serie.dropna()\<close>.\<close>

definition dropna :: "serie \<Rightarrow> (int \<times> real) list" where
  "dropna s = concat (map (\<lambda>(d, c). case c of None \<Rightarrow> [] | Some x \<Rightarrow> [(d, x)]) s)"

text \<open>\<open>base ** (1 / n)\<close> for a \<open>numpy.float64\<close> base and an integer \<open>n \<ge> 1\<close>: a
  negative base with a fractional exponent gives NaN (with a warning, not an
  exception).\<close>

definition np_root :: "real \<Rightarrow> nat \<Rightarrow> cell" where
  "np_root base n =
     (if 0 < base then Some (base powr (1 / of_nat n))
      else if base = 0 then Some 0
      else if n = 1 then Some base
      else None)"

text \<open>\<open>calcular_cagr\<close>, the function nested in \<open>obter_dados_cagr\<close>; \<open>years\<close> is the
  parameter of the enclosing function.\<close>

definition calcular_cagr :: "int \<Rightarrow> tabela \<Rightarrow> string list \<Rightarrow> py_error + pyval" where
  "calcular_cagr years df chaves_possiveis =
     (case primeira_chave df chaves_possiveis of
        None \<Rightarrow> Inr PNone
      | Some chave \<Rightarrow>
          (case tb_loc df chave of
             Inl e \<Rightarrow> Inl e
           | Inr linha \<Rightarrow>
               let serie = dropna (py_slice_from (- years - 1) (sort_index linha))
               in if length serie < 2 then Inr PNone
                  else
                    let valor_inicial = snd (hd serie);
                        valor_final = snd (last serie);
                        n_periodos = length serie - 1
                    in if valor_inicial = 0 then Inr PNone
                       else Inr (of_cell (map_option (\<lambda>p. p - 1)
                                   (np_root (valor_final / valor_inicial) n_periodos)))))"

text \<open>\<open>obter_dados_cagr\<close>: the two growth rates; the empty dictionary of the handler
  has neither key, which reads as \<open>None\<close> twice.\<close>

definition obter_dados_cagr :: "gateway \<Rightarrow> int \<Rightarrow> pyval \<times> pyval" where
  "obter_dados_cagr gw years =
     (case gw_financials gw of
        Inl e \<Rightarrow> (PNone, PNone)
      | Inr financials \<Rightarrow>
          if \<not> usable financials then (PNone, PNone)
          else
            (case financials of
               None \<Rightarrow> (PNone, PNone)
             | Some financials \<Rightarrow>
                 (case calcular_cagr years financials [''Total Revenue''] of
                    Inl e \<Rightarrow> (PNone, PNone)
                  | Inr cagr_receita \<Rightarrow>
                      (case calcular_cagr years financials [''Net Income''] of
                         Inl e \<Rightarrow> (PNone, PNone)
                       | Inr cagr_lucro \<Rightarrow> (cagr_receita, cagr_lucro)))))"

text \<open>The reading of the specification for the growth rate, to compare with
  \<open>calcular_cagr\<close>: undeterminable unless there are at least two points and the starting
  value is strictly positive.\<close>

definition cagr_spec :: "int \<Rightarrow> tabela \<Rightarrow> string list \<Rightarrow> py_error + pyval" where
  "cagr_spec years df chaves_possiveis =
     (case primeira_chave df chaves_possiveis of
        None \<Rightarrow> Inr PNone
      | Some chave \<Rightarrow>
          (case tb_loc df chave of
             Inl e \<Rightarrow> Inl e
           | Inr linha \<Rightarrow>
               let serie = dropna (py_slice_from (- years - 1) (sort_index linha))
               in if length serie < 2 \<or> \<not> 0 < snd (hd serie) then Inr PNone
                  else Inr (of_cell (map_option (\<lambda>p. p - 1)
                              (np_root (snd (last serie) / snd (hd serie)) (length serie - 1))))))"

subsection \<open>Seasonality\<close>

definition nomes_meses :: "string list" where
  "nomes_meses = [''Jan'', ''Feb'', ''Mar'', ''Apr'', ''May'', ''Jun'',
                  ''Jul'', ''Aug'', ''Sep'', ''Oct'', ''Nov'', ''Dec'']"

text \<open>\<open>datetime(2000, m, 1).strftime('%b')\<close> (in the C locale): a month outside 1..12
  raises ValueError.\<close>

definition strftime_b :: "nat \<Rightarrow> py_error + string" where
  "strftime_b m = (if 1 \<le> m \<and> m \<le> 12 then Inr (nomes_meses ! (m - 1)) else Inl ValueError)"

fun nomes_dos_meses :: "nat list \<Rightarrow> py_error + string list" where
  "nomes_dos_meses [] = Inr []"
| "nomes_dos_meses (m # ms) =
     (case strftime_b m of
        Inl e \<Rightarrow> Inl e
      | Inr n \<Rightarrow> (case nomes_dos_meses ms of Inl e \<Rightarrow> Inl e | Inr ns \<Rightarrow> Inr (n # ns)))"

text \<open>\<open>sep.join(xs)\<close>.\<close>

fun join :: "string \<Rightarrow> string list \<Rightarrow> string" where
  "join sep [] = []"
| "join sep [x] = x"
| "join sep (x # y # ys) = x @ sep @ join sep (y # ys)"

text \<open>The months of the dividend index whose count reaches the threshold, ascending
  (\<open>value_counts\<close>, the comparison with the threshold, \<open>index.sort_values()\<close>).\<close>

definition meses_recorrentes :: "dividends \<Rightarrow> real \<Rightarrow> nat list" where
  "meses_recorrentes dividends threshold_recorrencia =
     filter (\<lambda>m. threshold_recorrencia \<le> of_nat (length (filter (\<lambda>(t, v). t_month t = m) dividends)))
            (sort (remdups (map (\<lambda>(t, v). t_month t) dividends)))"

text \<open>\<open>hist.groupby(['Month', year])['Close'].mean().unstack().mean(axis=1)\<close>: for
  every month of the history, ascending, the mean over the years of that month's
  yearly mean closing price.\<close>

definition mensal_media :: "history \<Rightarrow> (nat \<times> real) list" where
  "mensal_media hist =
     map (\<lambda>m. (m, mean_list
                  (map (\<lambda>y. mean_list (map snd (filter (\<lambda>(t, c). t_month t = m \<and> t_year t = y) hist)))
                       (sort (remdups (map (\<lambda>(t, c). t_year t)
                                           (filter (\<lambda>(t, c). t_month t = m) hist)))))))
         (sort (remdups (map (\<lambda>(t, c). t_month t) hist)))"

text \<open>\<open>serie.nsmallest(3).index.sort_values()\<close>: among equal values the earlier month
  is kept.\<close>

definition meses_mais_baratos :: "(nat \<times> real) list \<Rightarrow> nat list" where
  "meses_mais_baratos medias = sort (map fst (take 3 (sort_key snd medias)))"

definition obter_sazonalidade_e_dividendos :: "gateway \<Rightarrow> int \<Rightarrow> string \<times> string" where
  "obter_sazonalidade_e_dividendos gw anos =
     (case gw_history gw of
        Inl e \<Rightarrow> (''Erro'', ''Erro'')
      | Inr hist \<Rightarrow>
          (case gw_dividends gw of
             Inl e \<Rightarrow> (''Erro'', ''Erro'')
           | Inr dividends \<Rightarrow>
               if hist = [] then (''N/A'', ''N/A'')
               else
                 (case (if dividends \<noteq> []
                        then (case nomes_dos_meses (meses_recorrentes dividends (of_int anos * 0.3)) of
                                Inl e \<Rightarrow> Inl e
                              | Inr nomes_meses_pagto \<Rightarrow>
                                  Inr (if nomes_meses_pagto \<noteq> [] then join '', '' nomes_meses_pagto
                                       else ''Sem Div.''))
                        else Inr ''Sem Div.'') of
                    Inl e \<Rightarrow> (''Erro'', ''Erro'')
                  | Inr col_pagto \<Rightarrow>
                      (case nomes_dos_meses (meses_mais_baratos (mensal_media hist)) of
                         Inl e \<Rightarrow> (''Erro'', ''Erro'')
                       | Inr nomes_meses_baratos \<Rightarrow> (col_pagto, join '', '' nomes_meses_baratos)))))"

subsection \<open>Graham price and payout ratio\<close>

definition calcular_preco_graham :: "info_val \<Rightarrow> info_val \<Rightarrow> py_error + real" where
  "calcular_preco_graham lpa vpa =
     (if \<not> truthy lpa then Inr 0.0
      else if \<not> truthy vpa then Inr 0.0
      else
        (case py_gt0 lpa of
           Inl e \<Rightarrow> Inl e
         | Inr False \<Rightarrow> Inr 0.0
         | Inr True \<Rightarrow>
             (case py_gt0 vpa of
                Inl e \<Rightarrow> Inl e
              | Inr False \<Rightarrow> Inr 0.0
              | Inr True \<Rightarrow>
                  (case (lpa, vpa) of
                     (INum l, INum v) \<Rightarrow> Inr (sqrt (MULTIPLICADOR_GRAHAM * l * v))
                   | _ \<Rightarrow> Inl TypeError))))"

definition calcular_payout_ratio :: "fundamentos \<Rightarrow> real" where
  "calcular_payout_ratio dados_info =
     (let dividendos_anuais = py_or (dividendRate dados_info) (INum 0);
          lucro_por_acao = py_or (LPA dados_info) (INum 0)
      in case py_le0 lucro_por_acao of
           Inl e \<Rightarrow> 0.0
         | Inr True \<Rightarrow> 0.0
         | Inr False \<Rightarrow>
             (case py_le0 dividendos_anuais of
                Inl e \<Rightarrow> 0.0
              | Inr True \<Rightarrow> 0.0
              | Inr False \<Rightarrow>
                  (case (dividendos_anuais, lucro_por_acao) of
                     (INum d, INum l) \<Rightarrow> py_round2 ((d / l) * 100)
                   | _ \<Rightarrow> 0.0)))"

subsection \<open>The pipeline of one ticker\<close>

text \<open>The sections \<open>v\<close>, \<open>i_extras\<close> and \<open>s\<close> of the result; the section \<open>i\<close> is the
  dictionary of fundamentals, \<open>g\<close> the annual frame.\<close>

record valuation =
  v_Ticker :: string
  Preco_Atual :: real
  Preco_Teto_Bazin :: real
  Preco_Graham :: real
  Margem_Seguranca :: real
  Pagamento_Dividendos :: string
  Melhor_mes_para_compra :: string

record extras =
  x_Ticker :: string
  Payout_Ratio :: real

record estatisticas =
  s_Ticker :: string
  s_Preco_Atual :: real
  Media_DPA :: real
  Mediana_DPA :: real
  CAGR_DPA_5a :: real
  Anos_Consecutivos :: nat

text \<open>The alert text is built from the ticker, the price and the ceiling.\<close>

datatype alerta = Oportunidade string real real

record resultado =
  r_v :: valuation
  r_i :: fundamentos
  r_i_extras :: extras
  r_s :: estatisticas
  r_g :: "linha_dpa list"
  r_a :: "alerta option"

text \<open>The structure that the handler of \<open>processar_ticker\<close> returns.\<close>

definition resultado_minimo :: "string \<Rightarrow> resultado" where
  "resultado_minimo ticker =
     \<lparr>r_v = \<lparr>v_Ticker = ticker, Preco_Atual = 0.0, Preco_Teto_Bazin = 0.0, Preco_Graham = 0.0,
             Margem_Seguranca = - 100.0, Pagamento_Dividendos = ''Erro'',
             Melhor_mes_para_compra = ''Erro''\<rparr>,
      r_i = so_ticker ticker,
      r_i_extras = \<lparr>x_Ticker = ticker, Payout_Ratio = 0.0\<rparr>,
      r_s = \<lparr>s_Ticker = ticker, s_Preco_Atual = 0.0, Media_DPA = 0.0, Mediana_DPA = 0.0,
             CAGR_DPA_5a = 0.0, Anos_Consecutivos = 0\<rparr>,
      r_g = [],
      r_a = None\<rparr>"

text \<open>\<open>processar_ticker\<close>; \<open>now\<close> is the reading of the clock during the run (the run
  does not cross the end of a year). \<open>obter_dados_cagr\<close> is called with its default of
  5 years.\<close>

definition processar_ticker :: "gateway \<Rightarrow> timestamp \<Rightarrow> string \<Rightarrow> int \<Rightarrow> real \<Rightarrow> resultado" where
  "processar_ticker gw now ticker anos taxa_retorno =
     (let (df_dpa, media_dpa, mediana_dpa, erro) = obter_dados_dpa now (gw_dividends gw) ticker anos;
          dados_fundamentalistas = fst (obter_dados_fundamentalistas gw ticker);
          (cagr_receita, cagr_lucro) = obter_dados_cagr gw 5;
          dados_fundamentalistas =
            dados_fundamentalistas\<lparr>CAGR_Receita_5a := cagr_receita, CAGR_Lucro_5a := cagr_lucro\<rparr>;
          (meses_pagamento, meses_baratos) = obter_sazonalidade_e_dividendos gw anos;
          preco_atual = obter_preco_atual gw;
          preco_teto = calcular_preco_teto_bazin media_dpa taxa_retorno
      in case calcular_preco_graham (LPA dados_fundamentalistas) (VPA dados_fundamentalistas) of
           Inl e \<Rightarrow> resultado_minimo ticker
         | Inr preco_graham \<Rightarrow>
             let margem_seguranca = calcular_margem_seguranca preco_teto preco_atual;
                 cagr_dpa = calcular_cagr_dpa (t_year now) df_dpa anos;
                 payout_ratio = calcular_payout_ratio dados_fundamentalistas;
                 anos_consecutivos = calcular_anos_consecutivos (t_year now) df_dpa;
                 alerta = (if margem_seguranca > 0
                           then Some (Oportunidade ticker preco_atual preco_teto) else None)
             in \<lparr>r_v = \<lparr>v_Ticker = ticker, Preco_Atual = preco_atual,
                        Preco_Teto_Bazin = preco_teto, Preco_Graham = preco_graham,
                        Margem_Seguranca = margem_seguranca,
                        Pagamento_Dividendos = meses_pagamento,
                        Melhor_mes_para_compra = meses_baratos\<rparr>,
                 r_i = dados_fundamentalistas,
                 r_i_extras = \<lparr>x_Ticker = ticker, Payout_Ratio = payout_ratio\<rparr>,
                 r_s = \<lparr>s_Ticker = ticker, s_Preco_Atual = preco_atual, Media_DPA = media_dpa,
                        Mediana_DPA = mediana_dpa, CAGR_DPA_5a = cagr_dpa,
                        Anos_Consecutivos = anos_consecutivos\<rparr>,
                 r_g = df_dpa,
                 r_a = alerta\<rparr>)"

subsection \<open>The batch\<close>

text \<open>The lists that the loop over the completed futures fills.\<close>

record acumuladores =
  data_valuation :: "valuation list"
  data_indicadores :: "fundamentos list"
  data_indicadores_extras :: "extras list"
  data_estatisticas :: "estatisticas list"
  data_grafico :: "linha_dpa list list"
  alertas :: "alerta list"

definition acumuladores_vazios :: acumuladores where
  "acumuladores_vazios =
     \<lparr>data_valuation = [], data_indicadores = [], data_indicadores_extras = [],
      data_estatisticas = [], data_grafico = [], alertas = []\<rparr>"

text \<open>The body of the loop for one completed future, whose result is \<open>resultado\<close>.\<close>

definition recolher :: "resultado \<Rightarrow> acumuladores \<Rightarrow> acumuladores" where
  "recolher resultado acc =
     \<lparr>data_valuation = data_valuation acc @ [r_v resultado],
      data_indicadores = data_indicadores acc @ [r_i resultado],
      data_indicadores_extras = data_indicadores_extras acc @ [r_i_extras resultado],
      data_estatisticas = data_estatisticas acc @ [r_s resultado],
      data_grafico = (if r_g resultado \<noteq> [] then data_grafico acc @ [r_g resultado]
                      else data_grafico acc),
      alertas = (case r_a resultado of None \<Rightarrow> alertas acc | Some al \<Rightarrow> alertas acc @ [al])\<rparr>"

text \<open>The batch: one future per entry of \<open>tickers\<close>, each running \<open>processar_ticker\<close>
  against the provider's answers for its ticker; \<open>ordem\<close> is the order in which
  \<open>as_completed\<close> yields the futures, given by their positions in \<open>tickers\<close>.\<close>

definition processar_lote ::
  "(string \<Rightarrow> gateway) \<Rightarrow> timestamp \<Rightarrow> string list \<Rightarrow> int \<Rightarrow> real \<Rightarrow> nat list \<Rightarrow> acumuladores" where
  "processar_lote provedor now tickers anos_input taxa_retorno_input ordem =
     (let taxa_retorno_decimal = taxa_retorno_input / 100
      in fold (\<lambda>k acc. recolher (processar_ticker (provedor (tickers ! k)) now (tickers ! k)
                                    anos_input taxa_retorno_decimal) acc)
              ordem acumuladores_vazios)"

section \<open>Properties\<close>

subsection \<open>Ticker normaliser\<close>

lemma strip_idem: "strip (strip s) = strip s"
proof -
  have a: "dropWhile is_space (dropWhile is_space xs) = dropWhile is_space xs" for xs
    by (simp add: dropWhile_idem)
  define u where "u = dropWhile is_space s"
  define v where "v = dropWhile is_space (rev u)"
  have hd_u: "u \<noteq> [] \<Longrightarrow> \<not> is_space (hd u)"
    unfolding u_def by (simp add: hd_dropWhile)
  have v_suffix: "\<exists>k. rev v = take k u"
  proof -
    have "\<exists>ys. rev u = ys @ v" unfolding v_def
      by (metis takeWhile_dropWhile_id)
    then obtain ys where "rev u = ys @ v" by blast
    then have "u = rev v @ rev ys" by (metis rev_append rev_rev_ident)
    then have "rev v = take (length v) u" by simp
    then show ?thesis by blast
  qed
  have "dropWhile is_space (rev v) = rev v"
  proof (cases "rev v = []")
    case True then show ?thesis by simp
  next
    case False
    from v_suffix obtain k where k: "rev v = take k u" by blast
    with False have "u \<noteq> []" and "k \<noteq> 0" by auto
    then have "hd (rev v) = hd u" using k by (cases u; cases k) auto
    with hd_u \<open>u \<noteq> []\<close> have "\<not> is_space (hd (rev v))" by simp
    with False show ?thesis by (cases "rev v") auto
  qed
  then have "strip (rev v) = rev v"
    unfolding strip_def v_def by (simp add: dropWhile_idem)
  then show ?thesis unfolding strip_def v_def u_def by simp
qed

lemma upper_char_not_space: "is_space (upper_char c) = is_space c"
  unfolding upper_char_def is_space_def
  by (auto split: option.splits if_splits)


lemma strip_upper: "strip (upper s) = upper (strip s)"
proof -
  have c: "is_space \<circ> upper_char = is_space"
    by (rule ext) (simp add: upper_char_not_space)
  show ?thesis
    unfolding strip_def upper_def
    by (simp add: dropWhile_map rev_map c)
qed

lemma upper_char_idem: "upper_char (upper_char c) = upper_char c"
  unfolding upper_char_def by (auto split: option.splits if_splits)

lemma upper_idem: "upper (upper s) = upper s"
  unfolding upper_def by (simp add: upper_char_idem)

lemma strip_last_not_space: "strip s \<noteq> [] \<Longrightarrow> \<not> is_space (last (strip s))"
  unfolding strip_def by (simp add: last_rev hd_dropWhile)

lemma padrao_match_stripped:
  assumes "padrao_match t" and "strip t = t"
  shows "t \<noteq> [] \<and> list_all ticker_char t"
proof -
  from assms(1) have ne: "t \<noteq> []" unfolding padrao_match_def Let_def by (auto split: if_splits)
  with assms(2) have "\<not> is_space (last t)" using strip_last_not_space[of t] by simp
  then have "last t \<noteq> CHR 0x0A" by (auto simp: is_space_def)
  with assms(1) ne show ?thesis unfolding padrao_match_def Let_def by simp
qed

lemma bruto_token:
  assumes "validar_ticker (upper (strip w))"
  shows "upper (strip w) \<noteq> [] \<and> list_all ticker_char (upper (strip w))
         \<and> strip (upper (strip w)) = upper (strip w) \<and> upper (upper (strip w)) = upper (strip w)"
proof -
  let ?t = "upper (strip w)"
  have s: "strip ?t = ?t" by (simp add: strip_upper strip_idem)
  have u: "upper ?t = ?t" by (simp add: upper_idem)
  from assms have "padrao_match (upper (strip ?t))"
    unfolding validar_ticker_def by (auto split: if_splits)
  then have "padrao_match ?t" by (simp add: s u)
  with s u show ?thesis using padrao_match_stripped[of ?t] by simp
qed

lemma ticker_char_not_newline: "ticker_char c \<Longrightarrow> c \<noteq> CHR 0x0A"
  by (auto simp: ticker_char_def)

lemma padrao_match_ticker_chars:
  assumes "t \<noteq> []" and "list_all ticker_char t"
  shows "padrao_match t"
proof -
  from assms have "ticker_char (last t)" by (simp add: list_all_iff)
  then have "last t \<noteq> CHR 0x0A" by (rule ticker_char_not_newline)
  with assms show ?thesis by (simp add: padrao_match_def)
qed

lemma valid_piece:
  "(strip w \<noteq> [] \<and> validar_ticker (upper (strip w)))
     \<longleftrightarrow> (upper (strip w) \<noteq> [] \<and> list_all ticker_char (upper (strip w)))"
proof
  assume "strip w \<noteq> [] \<and> validar_ticker (upper (strip w))"
  then show "upper (strip w) \<noteq> [] \<and> list_all ticker_char (upper (strip w))"
    using bruto_token[of w] by simp
next
  let ?t = "upper (strip w)"
  assume a: "?t \<noteq> [] \<and> list_all ticker_char ?t"
  then have n: "strip w \<noteq> []" by (auto simp: upper_def)
  have e: "upper (strip ?t) = ?t" by (simp add: strip_upper strip_idem upper_idem)
  from a have "padrao_match ?t" by (intro padrao_match_ticker_chars) simp_all
  with a e have "validar_ticker ?t" by (simp add: validar_ticker_def)
  with n show "strip w \<noteq> [] \<and> validar_ticker ?t" by simp
qed

lemma tickers_validos_eq:
  "filter validar_ticker (map (\<lambda>t. upper (strip t)) (filter (\<lambda>t. strip t \<noteq> []) pieces))
     = filter (\<lambda>t. t \<noteq> [] \<and> list_all ticker_char t) (map (\<lambda>t. upper (strip t)) pieces)"
proof (induction pieces)
  case Nil
  then show ?case by simp
next
  case (Cons w ws)
  show ?case
  proof (cases "strip w \<noteq> []")
    case True
    with Cons valid_piece[of w] show ?thesis by auto
  next
    case False
    with Cons show ?thesis by (simp add: upper_def)
  qed
qed

lemma sanitizar_tickers_eq:
  "sanitizar_tickers s
     = take 20 (filter (\<lambda>t. t \<noteq> [] \<and> list_all ticker_char t)
                       (map (\<lambda>t. upper (strip t)) (split_on (CHR '','') s)))"
proof (cases "s = []")
  case True
  then show ?thesis by (simp add: sanitizar_tickers_def strip_def upper_def)
next
  case False
  then show ?thesis
    by (simp add: sanitizar_tickers_def Let_def tickers_validos_eq MAX_TICKERS_PERMITIDOS_def)
qed

text \<open>
  Claim C3, as the code has it. For every raw comma-separated ASCII input the list
  returned by \<open>sanitizar_tickers\<close> is exactly the first 20 of the trimmed and
  uppercased pieces of the input that match \<open>^[A-Z0-9.-]+$\<close>, in input order: every
  entry is non-empty, consists only of characters of the class \<open>[A-Z0-9.-]\<close> and is
  left unchanged by \<open>strip\<close> and by \<open>upper\<close>; there are at most 20 entries; and
  nothing but the pieces that do not match and the pieces beyond the twentieth is
  removed, so a token that is repeated in the input is repeated in the list.
\<close>

theorem sanitizar_tickers_tokens:
  assumes "ascii_text s"
  shows "sanitizar_tickers s
           = take 20 (filter (\<lambda>t. t \<noteq> [] \<and> list_all ticker_char t)
                             (map (\<lambda>t. upper (strip t)) (split_on (CHR '','') s)))
   \<and> (length (filter (\<lambda>t. t \<noteq> [] \<and> list_all ticker_char t)
                      (map (\<lambda>t. upper (strip t)) (split_on (CHR '','') s))) \<le> 20 \<longrightarrow>
        (\<forall>t. count_list (sanitizar_tickers s) t
               = count_list (filter (\<lambda>t. t \<noteq> [] \<and> list_all ticker_char t)
                              (map (\<lambda>t. upper (strip t)) (split_on (CHR '','') s))) t))
   \<and> length (sanitizar_tickers s) \<le> 20
   \<and> (\<forall>t \<in> set (sanitizar_tickers s).
         t \<noteq> [] \<and> list_all ticker_char t \<and> strip t = t \<and> upper t = t)
   \<and> subseq (sanitizar_tickers s) (map (\<lambda>t. upper (strip t)) (split_on (CHR '','') s))"
proof -
  let ?pieces = "map (\<lambda>t. upper (strip t)) (split_on (CHR '','') s)"
  let ?P = "filter (\<lambda>t. t \<noteq> [] \<and> list_all ticker_char t) ?pieces"
  note e = sanitizar_tickers_eq[of s]
  have c: "\<forall>t. count_list (sanitizar_tickers s) t = count_list ?P t" if "length ?P \<le> 20"
    using that by (simp add: e)
  have len: "length (sanitizar_tickers s) \<le> 20" by (simp add: e)
  have tok: "t \<noteq> [] \<and> list_all ticker_char t \<and> strip t = t \<and> upper t = t"
    if "t \<in> set (sanitizar_tickers s)" for t
  proof -
    from that have "t \<in> set ?P" unfolding e by (rule in_set_takeD)
    then obtain w where w: "t = upper (strip w)" and v: "t \<noteq> [] \<and> list_all ticker_char t"
      by auto
    have "strip t = t" "upper t = t"
      unfolding w by (simp_all add: strip_upper strip_idem upper_idem)
    with v show ?thesis by simp
  qed
  have "subseq (take 20 ?P) ?P"
    by (simp add: sublist_imp_subseq prefix_imp_sublist take_is_prefix)
  moreover have "subseq ?P ?pieces" by simp
  ultimately have sub: "subseq (sanitizar_tickers s) ?pieces"
    unfolding e by (rule subseq_order.trans)
  from e c len tok sub show ?thesis by blast
qed

theorem sanitizar_tickers_tokens_witness:
  "ascii_text ''petr4.sa , x@y,, VALE3.SA, petr4.sa''
   \<and> sanitizar_tickers ''petr4.sa , x@y,, VALE3.SA, petr4.sa''
       = [''PETR4.SA'', ''VALE3.SA'', ''PETR4.SA'']
   \<and> count_list (sanitizar_tickers ''petr4.sa , x@y,, VALE3.SA, petr4.sa'') ''PETR4.SA'' = 2
   \<and> list_all ticker_char ''PETR4.SA'' \<and> strip ''PETR4.SA'' = ''PETR4.SA''
   \<and> upper ''PETR4.SA'' = ''PETR4.SA''"
proof -
  let ?s = "''petr4.sa , x@y,, VALE3.SA, petr4.sa''"
  have a: "ascii_text ?s" by (simp add: ascii_text_def)
  have p: "filter (\<lambda>t. t \<noteq> [] \<and> list_all ticker_char t)
             (map (\<lambda>t. upper (strip t)) (split_on (CHR '','') ?s))
           = [''PETR4.SA'', ''VALE3.SA'', ''PETR4.SA'']"
    by (simp add: strip_def upper_def upper_char_def is_space_def ticker_char_def)
  note t = sanitizar_tickers_tokens [OF a]
  from t have e: "sanitizar_tickers ?s = [''PETR4.SA'', ''VALE3.SA'', ''PETR4.SA'']"
    unfolding p by simp
  from t have "\<forall>t \<in> set (sanitizar_tickers ?s).
         t \<noteq> [] \<and> list_all ticker_char t \<and> strip t = t \<and> upper t = t" by blast
  then have k: "list_all ticker_char ''PETR4.SA'' \<and> strip ''PETR4.SA'' = ''PETR4.SA''
      \<and> upper ''PETR4.SA'' = ''PETR4.SA''"
    unfolding e by simp
  have c: "count_list (sanitizar_tickers ?s) ''PETR4.SA'' = 2" unfolding e by simp
  from a e c k show ?thesis by blast
qed

lemma sanitizar_tickers_A_A: "sanitizar_tickers ''A,A'' = [''A'', ''A'']"
  by (simp add: sanitizar_tickers_def validar_ticker_def padrao_match_def strip_def upper_def upper_char_def
     is_space_def ticker_char_def MAX_TICKERS_PERMITIDOS_def)

text \<open>
  Claim C3, as stated, fails: on the ASCII input \<open>A,A\<close> the returned list holds
  the token \<open>A\<close> twice.
\<close>

theorem sanitizar_tickers_duplicates:
  "ascii_text ''A,A'' \<and> sanitizar_tickers ''A,A'' = [''A'', ''A'']
   \<and> \<not> distinct (sanitizar_tickers ''A,A'')"
  by (simp add: sanitizar_tickers_A_A ascii_text_def)

subsection \<open>Margin of safety\<close>

text \<open>
  Claim C4. For all ceiling and price, the margin of safety is
  \<open>((ceiling / price) - 1) * 100\<close> when both are strictly positive and the sentinel
  \<open>-100\<close> in every other case; for ceiling 20 and price 15 it is within 0.01 of 33.33;
  it is \<open>-100\<close> whenever either argument is 0.
\<close>

theorem calcular_margem_seguranca_spec:
  "(0 < teto \<and> 0 < preco \<longrightarrow>
      calcular_margem_seguranca teto preco = ((teto / preco) - 1) * 100)
   \<and> (\<not> (0 < teto \<and> 0 < preco) \<longrightarrow>
      calcular_margem_seguranca teto preco = - 100)
   \<and> \<bar>calcular_margem_seguranca 20 15 - 33.33\<bar> \<le> 0.01
   \<and> calcular_margem_seguranca 0 preco = - 100
   \<and> calcular_margem_seguranca teto 0 = - 100"
  by (simp add: calcular_margem_seguranca_def)

theorem calcular_margem_seguranca_spec_witness:
  "(0::real) < 20 \<and> (0::real) < 15 \<and> calcular_margem_seguranca 20 15 = 100 / 3
   \<and> \<not> ((0::real) < 20 \<and> (0::real) < - 1) \<and> calcular_margem_seguranca 20 (- 1) = - 100"
  using calcular_margem_seguranca_spec [of 20 15] calcular_margem_seguranca_spec [of 20 "- 1"]
  by simp

subsection \<open>Consecutive dividend-paying years\<close>

lemma conta_consecutivos_takeWhile:
  "conta_consecutivos rows n = n + length (takeWhile (\<lambda>r. 0 < DPA r) rows)"
  by (induction rows arbitrary: n) auto

lemma sort_values_Ano_set [simp]: "set (sort_values_Ano asc df) = set df"
  by (simp add: sort_values_Ano_def)

lemma sort_values_Ano_length [simp]: "length (sort_values_Ano asc df) = length df"
  by (simp add: sort_values_Ano_def)

lemma sort_values_Ano_mset [simp]: "mset (sort_values_Ano asc df) = mset df"
  by (simp add: sort_values_Ano_def)

lemma sort_values_Ano_distinct:
  "distinct (map Ano df) \<Longrightarrow> distinct (map Ano (sort_values_Ano asc df))"
proof -
  assume d: "distinct (map Ano df)"
  have "mset (map Ano (sort_values_Ano asc df)) = mset (map Ano df)" by simp
  then show ?thesis using d by (metis distinct_count_atmost_1 set_mset_mset)
qed

lemma sort_values_Ano_desc:
  assumes "distinct (map Ano df)"
  shows "sorted_wrt (\<lambda>a b. Ano b < Ano a) (sort_values_Ano False df)"
proof -
  let ?L = "sort_key (\<lambda>r. - Ano r) df"
  have s: "sorted (map (\<lambda>r. - Ano r) ?L)" by simp
  have "distinct (map Ano ?L)"
    using sort_values_Ano_distinct[OF assms, of False] by (simp add: sort_values_Ano_def)
  then have "distinct (map (\<lambda>r. - Ano r) ?L)"
    by (simp add: distinct_map inj_on_def)
  with s have "sorted_wrt (<) (map (\<lambda>r. - Ano r) ?L)"
    by (simp add: strict_sorted_iff)
  then have "sorted_wrt (\<lambda>a b. - Ano a < - Ano b) ?L"
    by (simp add: sorted_wrt_map)
  then show ?thesis by (simp add: sort_values_Ano_def)
qed

lemma sort_values_Ano_asc:
  assumes "distinct (map Ano df)"
  shows "sorted_wrt (\<lambda>a b. Ano a < Ano b) (sort_values_Ano True df)"
proof -
  let ?L = "sort_key Ano df"
  have s: "sorted (map Ano ?L)" by simp
  have "distinct (map Ano ?L)"
    using sort_values_Ano_distinct[OF assms, of True] by (simp add: sort_values_Ano_def)
  with s have "sorted_wrt (<) (map Ano ?L)"
    by (simp add: strict_sorted_iff)
  then show ?thesis by (simp add: sort_values_Ano_def sorted_wrt_map)
qed

lemma takeWhile_streak:
  assumes "sorted_wrt (\<lambda>a b. Ano b < Ano a) L" and "g \<in> set L" and "\<not> 0 < DPA g"
    and "\<forall>r \<in> set L. Ano g < Ano r \<longrightarrow> 0 < DPA r"
  shows "takeWhile (\<lambda>r. 0 < DPA r) L = filter (\<lambda>r. Ano g < Ano r) L"
  using assms
proof (induction L)
  case Nil
  then show ?case by simp
next
  case (Cons x xs)
  show ?case
  proof (cases "x = g")
    case True
    with Cons.prems have "\<forall>r \<in> set xs. \<not> Ano g < Ano r" by auto
    then have "filter (\<lambda>r. Ano g < Ano r) xs = []" by (simp add: filter_empty_conv)
    with True Cons.prems show ?thesis by simp
  next
    case False
    with Cons.prems have gin: "g \<in> set xs" by simp
    with Cons.prems have lt: "Ano g < Ano x" by auto
    with Cons.prems have px: "0 < DPA x" by simp
    from Cons.prems gin have "takeWhile (\<lambda>r. 0 < DPA r) xs = filter (\<lambda>r. Ano g < Ano r) xs"
      by (intro Cons.IH) auto
    with lt px show ?thesis by simp
  qed
qed

text \<open>
  Claim C7. For every annual frame with one row per year, the count of
  \<open>calcular_anos_consecutivos\<close> is the length of the unbroken run of complete years
  with positive DPA counted backward from the most recent complete year: with a most
  recent complete year \<open>g\<close> whose DPA is not positive, it is the number of complete
  years after \<open>g\<close>, whatever the DPA of the years before \<open>g\<close>; with no such year
  it is the number of complete years. On 2020: 1.0, 2021: 1.0, 2022: 0.0, 2023: 1.0
  (2023 complete) the count is 1.
\<close>

theorem calcular_anos_consecutivos_streak:
  assumes "distinct (map Ano df)"
  shows "(\<forall>g \<in> set df. Ano g < cur \<and> DPA g \<le> 0
            \<and> (\<forall>r \<in> set df. Ano g < Ano r \<and> Ano r < cur \<longrightarrow> 0 < DPA r)
          \<longrightarrow> calcular_anos_consecutivos cur df
                = card {r \<in> set df. Ano g < Ano r \<and> Ano r < cur})
       \<and> ((\<forall>r \<in> set df. Ano r < cur \<longrightarrow> 0 < DPA r)
          \<longrightarrow> calcular_anos_consecutivos cur df = card {r \<in> set df. Ano r < cur})
       \<and> calcular_anos_consecutivos 2024
            [\<lparr>Ano = 2020, DPA = 1.0, Ticker = tk\<rparr>, \<lparr>Ano = 2021, DPA = 1.0, Ticker = tk\<rparr>,
             \<lparr>Ano = 2022, DPA = 0.0, Ticker = tk\<rparr>, \<lparr>Ano = 2023, DPA = 1.0, Ticker = tk\<rparr>] = 1"
proof -
  let ?C = "filter (\<lambda>r. Ano r < cur) df"
  let ?L = "sort_values_Ano False ?C"
  have dC: "distinct (map Ano ?C)" using assms by (simp add: distinct_map_filter)
  have dL: "distinct ?L"
    using sort_values_Ano_distinct[OF dC, of False] by (simp add: distinct_map)
  have sL: "sorted_wrt (\<lambda>a b. Ano b < Ano a) ?L" using dC by (rule sort_values_Ano_desc)
  have val: "calcular_anos_consecutivos cur df = length (takeWhile (\<lambda>r. 0 < DPA r) ?L)"
    by (auto simp: calcular_anos_consecutivos_def Let_def conta_consecutivos_takeWhile
        sort_values_Ano_def)
  have a: "calcular_anos_consecutivos cur df = card {r \<in> set df. Ano g < Ano r \<and> Ano r < cur}"
    if g: "g \<in> set df" "Ano g < cur" "DPA g \<le> 0"
      and pos: "\<forall>r \<in> set df. Ano g < Ano r \<and> Ano r < cur \<longrightarrow> 0 < DPA r" for g
  proof -
    have e1: "takeWhile (\<lambda>r. 0 < DPA r) ?L = filter (\<lambda>r. Ano g < Ano r) ?L"
      using sL g pos by (intro takeWhile_streak) auto
    have "distinct (filter (\<lambda>r. Ano g < Ano r) ?L)" using dL by simp
    then have e2: "length (filter (\<lambda>r. Ano g < Ano r) ?L) = card (set (filter (\<lambda>r. Ano g < Ano r) ?L))"
      by (rule distinct_card[symmetric])
    have e3: "set (filter (\<lambda>r. Ano g < Ano r) ?L) = {r \<in> set df. Ano g < Ano r \<and> Ano r < cur}"
      by auto
    show ?thesis by (simp only: val e1 e2 e3)
  qed
  have b: "calcular_anos_consecutivos cur df = card {r \<in> set df. Ano r < cur}"
    if pos: "\<forall>r \<in> set df. Ano r < cur \<longrightarrow> 0 < DPA r"
  proof -
    have "\<forall>r \<in> set ?L. 0 < DPA r" using pos by simp
    then have e1: "takeWhile (\<lambda>r. 0 < DPA r) ?L = ?L" by (simp add: takeWhile_eq_all_conv)
    have e2: "length ?L = card (set ?L)" using dL by (rule distinct_card[symmetric])
    have e3: "set ?L = {r \<in> set df. Ano r < cur}" by auto
    show ?thesis by (simp only: val e1 e2 e3)
  qed
  have c: "calcular_anos_consecutivos 2024
            [\<lparr>Ano = 2020, DPA = 1.0, Ticker = tk\<rparr>, \<lparr>Ano = 2021, DPA = 1.0, Ticker = tk\<rparr>,
             \<lparr>Ano = 2022, DPA = 0.0, Ticker = tk\<rparr>, \<lparr>Ano = 2023, DPA = 1.0, Ticker = tk\<rparr>] = 1"
    by (simp add: calcular_anos_consecutivos_def sort_values_Ano_def)
  from a b c show ?thesis by blast
qed


theorem calcular_anos_consecutivos_streak_witness:
  "distinct (map Ano [\<lparr>Ano = 2020, DPA = 1.0, Ticker = ''X''\<rparr>, \<lparr>Ano = 2021, DPA = 1.0, Ticker = ''X''\<rparr>,
                      \<lparr>Ano = 2022, DPA = 0.0, Ticker = ''X''\<rparr>, \<lparr>Ano = 2023, DPA = 1.0, Ticker = ''X''\<rparr>])
   \<and> DPA \<lparr>Ano = 2022, DPA = 0.0, Ticker = ''X''\<rparr> \<le> 0
   \<and> card {r \<in> set [\<lparr>Ano = 2020, DPA = 1.0, Ticker = ''X''\<rparr>, \<lparr>Ano = 2021, DPA = 1.0, Ticker = ''X''\<rparr>,
                        \<lparr>Ano = 2022, DPA = 0.0, Ticker = ''X''\<rparr>, \<lparr>Ano = 2023, DPA = 1.0, Ticker = ''X''\<rparr>].
              Ano \<lparr>Ano = 2022, DPA = 0.0, Ticker = ''X''\<rparr> < Ano r \<and> Ano r < 2024} = 1"
proof -
  let ?df = "[\<lparr>Ano = 2020, DPA = 1.0, Ticker = ''X''\<rparr>, \<lparr>Ano = 2021, DPA = 1.0, Ticker = ''X''\<rparr>,
              \<lparr>Ano = 2022, DPA = 0.0, Ticker = ''X''\<rparr>, \<lparr>Ano = 2023, DPA = 1.0, Ticker = ''X''\<rparr>]"
  let ?g = "\<lparr>Ano = 2022, DPA = 0.0, Ticker = ''X''\<rparr>"
  have d: "distinct (map Ano ?df)" by simp
  have gin: "?g \<in> set ?df" by simp
  have h: "Ano ?g < 2024 \<and> DPA ?g \<le> 0
           \<and> (\<forall>r \<in> set ?df. Ano ?g < Ano r \<and> Ano r < 2024 \<longrightarrow> 0 < DPA r)"
    by simp
  note t = calcular_anos_consecutivos_streak [OF d, of 2024 "''X''"]
  from t have a: "\<forall>g \<in> set ?df. Ano g < 2024 \<and> DPA g \<le> 0
            \<and> (\<forall>r \<in> set ?df. Ano g < Ano r \<and> Ano r < 2024 \<longrightarrow> 0 < DPA r)
          \<longrightarrow> calcular_anos_consecutivos 2024 ?df
                = card {r \<in> set ?df. Ano g < Ano r \<and> Ano r < 2024}"
    by (rule conjunct1)
  from t have c: "calcular_anos_consecutivos 2024 ?df = 1"
    by (intro conjunct2[OF conjunct2[OF t]])
  from a gin have "Ano ?g < 2024 \<and> DPA ?g \<le> 0
            \<and> (\<forall>r \<in> set ?df. Ano ?g < Ano r \<and> Ano r < 2024 \<longrightarrow> 0 < DPA r)
          \<longrightarrow> calcular_anos_consecutivos 2024 ?df
                = card {r \<in> set ?df. Ano ?g < Ano r \<and> Ano r < 2024}"
    by (rule bspec)
  with h have "calcular_anos_consecutivos 2024 ?df
                = card {r \<in> set ?df. Ano ?g < Ano r \<and> Ano r < 2024}"
    by (rule mp[rotated])
  with c have e: "card {r \<in> set ?df. Ano ?g < Ano r \<and> Ano r < 2024} = 1" by (simp only:)
  have d2: "DPA ?g \<le> 0" by simp
  from d d2 e show ?thesis by (intro conjI)
qed

subsection \<open>Growth rate of the annual dividend\<close>

lemma sort_values_Ano_unique:
  assumes s: "sorted_wrt (\<lambda>a b. Ano a < Ano b) df" and m: "mset X = mset df"
  shows "sort_values_Ano True X = df"
proof -
  let ?L = "sort_values_Ano True X"
  have sd: "sorted_wrt (<) (map Ano df)" using s by (simp add: sorted_wrt_map)
  then have ddf: "distinct (map Ano df)" by (simp add: strict_sorted_iff)
  have "mset (map Ano X) = mset (map Ano df)" using m by simp
  then have dX: "distinct (map Ano X)" using ddf by (metis distinct_count_atmost_1 set_mset_mset)
  have "sorted_wrt (\<lambda>a b. Ano a < Ano b) ?L" using dX by (rule sort_values_Ano_asc)
  then have sL: "sorted_wrt (<) (map Ano ?L)" by (simp add: sorted_wrt_map)
  have "set X = set df" using m by (rule mset_eq_setD)
  then have setL: "set ?L = set df" by simp
  then have se: "set (map Ano ?L) = set (map Ano df)" by simp
  from sd sL se have e: "map Ano ?L = map Ano df" by (rule strict_sorted_equal)
  have "inj_on Ano (set df)" using ddf by (simp add: distinct_map)
  then have "inj_on Ano (set ?L \<union> set df)" using setL by simp
  with e show ?thesis by (rule map_inj_on)
qed

lemma py_head_all: "int (length xs) \<le> n \<Longrightarrow> py_head n xs = xs"
  by (simp add: py_head_def)

lemma py_head_length_le: "0 \<le> n \<Longrightarrow> length (py_head n xs) \<le> nat n"
  by (simp add: py_head_def)

lemma py_head_length: "0 \<le> n \<Longrightarrow> length (py_head n xs) = min (nat n) (length xs)"
  by (simp add: py_head_def)

lemma py_head_subset: "set (py_head n xs) \<subseteq> set xs"
  by (auto simp: py_head_def dest: in_set_takeD)

lemma two_positive:
  assumes "2 \<le> length w" and "P (hd w)" and "P (last w)"
  shows "2 \<le> length (filter P w)"
proof -
  from assms(1) obtain x zs where w: "w = x # zs" "zs \<noteq> []"
    by (cases w) (auto simp: Suc_le_length_iff)
  then have "last w = last zs" by simp
  with assms(3) w have "P (last zs)" "last zs \<in> set zs" by auto
  then have "filter P zs \<noteq> []" by (auto simp: filter_empty_conv)
  then have "1 \<le> length (filter P zs)" by (cases "filter P zs") auto
  with assms(2) w show ?thesis by simp
qed

lemma rint_of_int [simp]: "rint (of_int k) = k"
  by (simp add: rint_def)

text \<open>
  Claim C9, as the code has it. For every trimmed annual frame (one row per complete
  year, in ascending order, at most \<open>anos\<close> rows) the DPA growth rate is the formula
  applied between the first and the last value of the window, over the number of rows
  minus one, in percent and rounded to two decimals, when both values are strictly
  positive; it is 0 when the window has fewer than two rows or when its first or its
  last value is not positive. In particular it is 0 whenever the window has fewer than
  two positive points.
\<close>

theorem calcular_cagr_dpa_window:
  assumes "sorted_wrt (\<lambda>a b. Ano a < Ano b) df"
    and "\<forall>r \<in> set df. Ano r < cur"
    and "int (length df) \<le> anos"
  shows "calcular_cagr_dpa cur df anos =
           (if length df < 2 \<or> DPA (hd df) \<le> 0 \<or> DPA (last df) \<le> 0 then 0
            else py_round2 (((DPA (last df) / DPA (hd df)) powr (1 / real (length df - 1)) - 1) * 100))
         \<and> (length (filter (\<lambda>r. 0 < DPA r) df) < 2 \<longrightarrow> calcular_cagr_dpa cur df anos = 0)"
proof -
  have f: "filter (\<lambda>r. Ano r < cur) df = df" using assms(2) by simp
  have h: "py_head anos (sort_values_Ano False df) = sort_values_Ano False df"
    using assms(3) by (simp add: py_head_all)
  have u: "sort_values_Ano True (sort_values_Ano False df) = df"
    using assms(1) by (rule sort_values_Ano_unique) simp
  have v: "calcular_cagr_dpa cur df anos =
           (if length df < 2 \<or> DPA (hd df) \<le> 0 \<or> DPA (last df) \<le> 0 then 0
            else py_round2 (((DPA (last df) / DPA (hd df)) powr (1 / real (length df - 1)) - 1) * 100))"
    unfolding calcular_cagr_dpa_def Let_def f h u by auto
  have z: "calcular_cagr_dpa cur df anos = 0" if "length (filter (\<lambda>r. 0 < DPA r) df) < 2"
  proof (cases "length df < 2 \<or> DPA (hd df) \<le> 0 \<or> DPA (last df) \<le> 0")
    case True
    with v show ?thesis by simp
  next
    case False
    then have "2 \<le> length (filter (\<lambda>r. 0 < DPA r) df)"
      by (intro two_positive) auto
    with that show ?thesis by simp
  qed
  from v z show ?thesis by blast
qed

theorem calcular_cagr_dpa_window_witness:
  "sorted_wrt (\<lambda>a b. Ano a < Ano b)
      [\<lparr>Ano = 2021, DPA = 1, Ticker = ''X''\<rparr>, \<lparr>Ano = 2022, DPA = 2, Ticker = ''X''\<rparr>]
   \<and> Ano \<lparr>Ano = 2021, DPA = 1, Ticker = ''X''\<rparr> < 2024
   \<and> Ano \<lparr>Ano = 2022, DPA = 2, Ticker = ''X''\<rparr> < 2024
   \<and> int (length [\<lparr>Ano = 2021, DPA = 1, Ticker = ''X''\<rparr>, \<lparr>Ano = 2022, DPA = 2, Ticker = ''X''\<rparr>]) \<le> 5
   \<and> calcular_cagr_dpa 2024
        [\<lparr>Ano = 2021, DPA = 1, Ticker = ''X''\<rparr>, \<lparr>Ano = 2022, DPA = 2, Ticker = ''X''\<rparr>] 5 = 100
   \<and> length (filter (\<lambda>r. 0 < DPA r) [\<lparr>Ano = 2021, DPA = 0, Ticker = ''X''\<rparr>, \<lparr>Ano = 2022, DPA = 2, Ticker = ''X''\<rparr>]) < 2
   \<and> calcular_cagr_dpa 2024
        [\<lparr>Ano = 2021, DPA = 0, Ticker = ''X''\<rparr>, \<lparr>Ano = 2022, DPA = 2, Ticker = ''X''\<rparr>] 5 = 0"
proof -
  let ?df = "[\<lparr>Ano = 2021, DPA = 1, Ticker = ''X''\<rparr>, \<lparr>Ano = 2022, DPA = 2, Ticker = ''X''\<rparr>]"
  let ?dz = "[\<lparr>Ano = 2021, DPA = 0, Ticker = ''X''\<rparr>, \<lparr>Ano = 2022, DPA = 2, Ticker = ''X''\<rparr>]"
  have a: "sorted_wrt (\<lambda>a b. Ano a < Ano b) ?df" by simp
  have b: "\<forall>r \<in> set ?df. Ano r < 2024" by simp
  have c: "int (length ?df) \<le> 5" by simp
  have a': "sorted_wrt (\<lambda>a b. Ano a < Ano b) ?dz" by simp
  have b': "\<forall>r \<in> set ?dz. Ano r < 2024" by simp
  have c': "int (length ?dz) \<le> 5" by simp
  have p: "length (filter (\<lambda>r. 0 < DPA r) ?dz) < 2" by simp
  have r: "py_round2 100 = 100"
    using rint_of_int[of 10000] by (simp add: py_round2_def)
  have "calcular_cagr_dpa 2024 ?df 5 = 100"
    using calcular_cagr_dpa_window [OF a b c] r by simp
  moreover have "calcular_cagr_dpa 2024 ?dz 5 = 0"
    using calcular_cagr_dpa_window [OF a' b' c'] p by blast
  ultimately show ?thesis using a c p by simp
qed

text \<open>
  Claim C9, as stated, fails: on the window 2020: 0, 2021: 1, 2022: 2 the first positive
  value is 1 and the last positive value is 2, which the formula turns into 100 percent,
  while \<open>calcular_cagr_dpa\<close> returns 0 because the first value of the window is 0.
\<close>

theorem calcular_cagr_dpa_first_positive:
  "calcular_cagr_dpa 2024
     [\<lparr>Ano = 2020, DPA = 0, Ticker = ''X''\<rparr>, \<lparr>Ano = 2021, DPA = 1, Ticker = ''X''\<rparr>,
      \<lparr>Ano = 2022, DPA = 2, Ticker = ''X''\<rparr>] 5 = 0
   \<and> cagr_dpa_spec
     [\<lparr>Ano = 2020, DPA = 0, Ticker = ''X''\<rparr>, \<lparr>Ano = 2021, DPA = 1, Ticker = ''X''\<rparr>,
      \<lparr>Ano = 2022, DPA = 2, Ticker = ''X''\<rparr>] = 100"
proof -
  let ?df = "[\<lparr>Ano = 2020, DPA = 0, Ticker = ''X''\<rparr>, \<lparr>Ano = 2021, DPA = 1, Ticker = ''X''\<rparr>,
              \<lparr>Ano = 2022, DPA = 2, Ticker = ''X''\<rparr>]"
  have r: "py_round2 100 = 100"
    using rint_of_int[of 10000] by (simp add: py_round2_def)
  have a1: "calcular_cagr_dpa 2024 ?df 5 = 0"
    by (simp add: calcular_cagr_dpa_def sort_values_Ano_def py_head_def)
  have a2: "filter (\<lambda>r. DPA r > 0) (sort_values_Ano True ?df)
            = [\<lparr>Ano = 2021, DPA = 1, Ticker = ''X''\<rparr>, \<lparr>Ano = 2022, DPA = 2, Ticker = ''X''\<rparr>]"
    by (simp add: sort_values_Ano_def)
  have a3: "cagr_dpa_spec ?df = 100"
    unfolding cagr_dpa_spec_def a2 Let_def by (simp add: r)
  from a1 a3 show ?thesis by (intro conjI)
qed

subsection \<open>Annual dividend frame\<close>

lemma sort_values_Ano_Nil [simp]: "sort_values_Ano asc df = [] \<longleftrightarrow> df = []"
  using sort_values_Ano_length[of asc df] by (metis length_0_conv)

lemma fold_min_le: "fold min ys a \<le> (a::int) \<and> (\<forall>y \<in> set ys. fold min ys a \<le> y)"
proof (induction ys arbitrary: a)
  case Nil
  then show ?case by simp
next
  case (Cons y ys)
  from Cons.IH[of "min y a"] show ?case by auto
qed

lemma fold_max_ge: "(a::int) \<le> fold max ys a \<and> (\<forall>y \<in> set ys. y \<le> fold max ys a)"
proof (induction ys arbitrary: a)
  case Nil
  then show ?case by simp
next
  case (Cons y ys)
  from Cons.IH[of "max y a"] show ?case by auto
qed

lemma resample_YE_sum_years:
  assumes "serie \<noteq> []"
  shows "\<exists>lo hi. map Ano (resample_YE_sum tk serie) = [lo..hi]
           \<and> (\<forall>(t, v) \<in> set serie. lo \<le> t_year t \<and> t_year t \<le> hi)"
proof -
  let ?ys = "map (\<lambda>(t, v). t_year t) serie"
  let ?lo = "fold min ?ys (hd ?ys)"
  let ?hi = "fold max ?ys (hd ?ys)"
  have m: "map Ano (resample_YE_sum tk serie) = [?lo..?hi]"
    using assms by (simp add: resample_YE_sum_def Let_def comp_def)
  have "\<forall>y \<in> set ?ys. ?lo \<le> y \<and> y \<le> ?hi"
    using fold_min_le[of ?ys "hd ?ys"] fold_max_ge[of "hd ?ys" ?ys] by blast
  then have "\<forall>(t, v) \<in> set serie. ?lo \<le> t_year t \<and> t_year t \<le> ?hi"
    by fastforce
  with m show ?thesis by blast
qed

lemma resample_YE_sum_distinct: "distinct (map Ano (resample_YE_sum tk serie))"
proof (cases "serie = []")
  case True
  then show ?thesis by (simp add: resample_YE_sum_def)
next
  case False
  from resample_YE_sum_years[OF False, of tk] show ?thesis by auto
qed

lemma complete_years_count:
  assumes m: "map Ano rows = [lo..hi]" and "lo \<le> cur - n" and "cur - 1 \<le> hi" and "0 \<le> n"
  shows "nat n \<le> length (filter (\<lambda>r. Ano r < cur) rows)"
proof -
  have "length (filter (\<lambda>r. Ano r < cur) rows) = length (filter (\<lambda>y. y < cur) (map Ano rows))"
    by (simp add: filter_map comp_def)
  also have "\<dots> = length (filter (\<lambda>y. y < cur) [lo..hi])" by (simp only: m)
  also have "\<dots> = card (set (filter (\<lambda>y. y < cur) [lo..hi]))"
    by (rule distinct_card[symmetric]) simp
  finally have e: "length (filter (\<lambda>r. Ano r < cur) rows) = card (set (filter (\<lambda>y. y < cur) [lo..hi]))" .
  have "{cur - n..cur - 1} \<subseteq> set (filter (\<lambda>y. y < cur) [lo..hi])"
    using assms by auto
  then have "card {cur - n..cur - 1} \<le> card (set (filter (\<lambda>y. y < cur) [lo..hi]))"
    by (rule card_mono[OF finite_set])
  moreover have "card {cur - n..cur - 1} = nat n" by simp
  ultimately show ?thesis using e by simp
qed

lemma sum_list_map_mset_cong:
  assumes "mset xs = mset ys"
  shows "sum_list (map f xs) = (sum_list (map f ys) :: real)"
proof -
  have "mset (map f xs) = mset (map f ys)" using assms by simp
  then show ?thesis by (metis sum_mset_sum_list)
qed

lemma mean_list_mset_cong:
  assumes "mset xs = mset ys"
  shows "mean_list (map f xs) = mean_list (map f ys)"
  using sum_list_map_mset_cong[OF assms, of f] mset_eq_length[OF assms]
  by (simp add: mean_list_def)

lemma sort_mset_cong:
  assumes "mset xs = mset (ys :: real list)"
  shows "sort xs = sort ys"
proof (rule properties_for_sort)
  show "mset (sort ys) = mset xs" using assms by simp
  show "sorted (sort ys)" by simp
qed

lemma median_list_mset_cong:
  assumes "mset xs = mset ys"
  shows "median_list (map f xs) = median_list (map f ys)"
proof -
  have "mset (map f xs) = mset (map f ys)" using assms by simp
  then have "sort (map f xs) = sort (map f ys)" by (rule sort_mset_cong)
  then show ?thesis by (simp add: median_list_def)
qed

text \<open>The shape of the value of \<open>obter_dados_dpa\<close> on a non-empty series.\<close>

lemma obter_dados_dpa_Inr:
  assumes "ds \<noteq> []"
  shows "obter_dados_dpa now (Inr ds) tk anos =
    (let W = py_head anos (sort_values_Ano False (filter (\<lambda>r. Ano r < t_year now)
               (resample_YE_sum tk (filter (\<lambda>(t, v). t_epoch now - timedelta_days (anos * 365) \<le> t_epoch t
                    \<and> t_epoch t \<le> t_epoch now) ds))))
     in (sort_values_Ano True W,
         if W \<noteq> [] then mean_list (map DPA W) else 0,
         if W \<noteq> [] then median_list (map DPA W) else 0, None))"
  using assms by (simp add: obter_dados_dpa_def Let_def)

lemma obter_dados_dpa_empty:
  "resposta = Inl e \<or> resposta = Inr [] \<Longrightarrow>
   fst (obter_dados_dpa now resposta tk anos) = []
   \<and> fst (snd (obter_dados_dpa now resposta tk anos)) = 0
   \<and> fst (snd (snd (obter_dados_dpa now resposta tk anos))) = 0"
  by (auto simp: obter_dados_dpa_def Let_def)

text \<open>
  Claim C2. For every dividend series and every requested window of \<open>anos \<ge> 0\<close>
  years, the frame returned by \<open>obter_dados_dpa\<close> holds only calendar years strictly
  before the current year and never more than \<open>anos\<close> rows; it holds exactly
  \<open>anos\<close> rows when the part of the series inside the trailing \<open>anos * 365\<close> days
  has an observation in the year \<open>current - anos\<close> or earlier and one in the year
  \<open>current - 1\<close> or later; the returned mean and median are the arithmetic mean and
  the median of the DPA column of the returned frame (and 0 for an empty frame).
\<close>

theorem obter_dados_dpa_trimmed:
  assumes "0 \<le> anos"
  shows "(\<forall>r \<in> set (fst (obter_dados_dpa now resposta tk anos)). Ano r < t_year now)
    \<and> length (fst (obter_dados_dpa now resposta tk anos)) \<le> nat anos
    \<and> (\<forall>ds. resposta = Inr ds
          \<and> (\<exists>(t, v) \<in> set ds. t_epoch now - timedelta_days (anos * 365) \<le> t_epoch t
                \<and> t_epoch t \<le> t_epoch now \<and> t_year t \<le> t_year now - anos)
          \<and> (\<exists>(t, v) \<in> set ds. t_epoch now - timedelta_days (anos * 365) \<le> t_epoch t
                \<and> t_epoch t \<le> t_epoch now \<and> t_year now - 1 \<le> t_year t)
        \<longrightarrow> length (fst (obter_dados_dpa now resposta tk anos)) = nat anos)
    \<and> (fst (obter_dados_dpa now resposta tk anos) \<noteq> [] \<longrightarrow>
         fst (snd (obter_dados_dpa now resposta tk anos))
           = mean_list (map DPA (fst (obter_dados_dpa now resposta tk anos)))
         \<and> fst (snd (snd (obter_dados_dpa now resposta tk anos)))
           = median_list (map DPA (fst (obter_dados_dpa now resposta tk anos))))
    \<and> (fst (obter_dados_dpa now resposta tk anos) = [] \<longrightarrow>
         fst (snd (obter_dados_dpa now resposta tk anos)) = 0
         \<and> fst (snd (snd (obter_dados_dpa now resposta tk anos))) = 0)"
proof (cases "\<exists>ds. resposta = Inr ds \<and> ds \<noteq> []")
  case False
  then have "(\<exists>e. resposta = Inl e) \<or> resposta = Inr []" by (cases resposta) auto
  then obtain e where c: "resposta = Inl e \<or> resposta = Inr []" by blast
  note z = obter_dados_dpa_empty[OF c, of now tk anos]
  have "\<not> (\<exists>ds. resposta = Inr ds \<and> (\<exists>(t, v) \<in> set ds. t_epoch now - timedelta_days (anos * 365) \<le> t_epoch t
                \<and> t_epoch t \<le> t_epoch now \<and> t_year t \<le> t_year now - anos))"
    using c by auto
  with z show ?thesis by auto
next
  case True
  then obtain ds where r: "resposta = Inr ds" and ne: "ds \<noteq> []" by blast
  define F where "F = filter (\<lambda>(t, v). t_epoch now - timedelta_days (anos * 365) \<le> t_epoch t
                    \<and> t_epoch t \<le> t_epoch now) ds"
  define C where "C = filter (\<lambda>r. Ano r < t_year now) (resample_YE_sum tk F)"
  define W where "W = py_head anos (sort_values_Ano False C)"
  have R: "obter_dados_dpa now resposta tk anos =
        (sort_values_Ano True W,
         if W \<noteq> [] then mean_list (map DPA W) else 0,
         if W \<noteq> [] then median_list (map DPA W) else 0, None)"
    unfolding r obter_dados_dpa_Inr[OF ne] W_def C_def F_def Let_def ..
  have fr: "fst (obter_dados_dpa now resposta tk anos) = sort_values_Ano True W"
    by (simp add: R)
  have sub: "set W \<subseteq> set C" unfolding W_def using py_head_subset[of anos "sort_values_Ano False C"] by simp
  have p1: "\<forall>r \<in> set (fst (obter_dados_dpa now resposta tk anos)). Ano r < t_year now"
    using sub by (auto simp: fr C_def)
  have lenW: "length W = min (nat anos) (length C)"
    unfolding W_def using assms by (simp add: py_head_length)
  have p2: "length (fst (obter_dados_dpa now resposta tk anos)) \<le> nat anos"
    by (simp add: fr lenW)
  have p3: "length (fst (obter_dados_dpa now resposta tk anos)) = nat anos"
    if a: "\<exists>(t, v) \<in> set ds. t_epoch now - timedelta_days (anos * 365) \<le> t_epoch t
                \<and> t_epoch t \<le> t_epoch now \<and> t_year t \<le> t_year now - anos"
      and b: "\<exists>(t, v) \<in> set ds. t_epoch now - timedelta_days (anos * 365) \<le> t_epoch t
                \<and> t_epoch t \<le> t_epoch now \<and> t_year now - 1 \<le> t_year t"
  proof -
    from a obtain t1 v1 where t1: "(t1, v1) \<in> set F" "t_year t1 \<le> t_year now - anos"
      unfolding F_def by auto
    from b obtain t2 v2 where t2: "(t2, v2) \<in> set F" "t_year now - 1 \<le> t_year t2"
      unfolding F_def by auto
    from t1 have "F \<noteq> []" by auto
    from resample_YE_sum_years[OF this, of tk] obtain lo hi
      where m: "map Ano (resample_YE_sum tk F) = [lo..hi]"
        and bd: "\<forall>(t, v) \<in> set F. lo \<le> t_year t \<and> t_year t \<le> hi" by blast
    from bd t1 have "lo \<le> t_year now - anos" by fastforce
    moreover from bd t2 have "t_year now - 1 \<le> hi" by fastforce
    ultimately have "nat anos \<le> length C"
      unfolding C_def using m assms by (intro complete_years_count)
    then show ?thesis by (simp add: fr lenW)
  qed
  have ms: "mset (sort_values_Ano True W) = mset W" by simp
  have p4: "fst (snd (obter_dados_dpa now resposta tk anos))
           = mean_list (map DPA (fst (obter_dados_dpa now resposta tk anos)))
         \<and> fst (snd (snd (obter_dados_dpa now resposta tk anos)))
           = median_list (map DPA (fst (obter_dados_dpa now resposta tk anos)))"
    if "fst (obter_dados_dpa now resposta tk anos) \<noteq> []"
  proof -
    from that have "W \<noteq> []" unfolding fr by simp
    then show ?thesis
      unfolding fr using mean_list_mset_cong[OF ms, of DPA] median_list_mset_cong[OF ms, of DPA]
      by (simp add: R)
  qed
  have p5: "fst (snd (obter_dados_dpa now resposta tk anos)) = 0
         \<and> fst (snd (snd (obter_dados_dpa now resposta tk anos))) = 0"
    if "fst (obter_dados_dpa now resposta tk anos) = []"
  proof -
    from that have "W = []" unfolding fr by simp
    then show ?thesis by (simp add: R)
  qed
  from p3 r have p3': "\<forall>ds. resposta = Inr ds
          \<and> (\<exists>(t, v) \<in> set ds. t_epoch now - timedelta_days (anos * 365) \<le> t_epoch t
                \<and> t_epoch t \<le> t_epoch now \<and> t_year t \<le> t_year now - anos)
          \<and> (\<exists>(t, v) \<in> set ds. t_epoch now - timedelta_days (anos * 365) \<le> t_epoch t
                \<and> t_epoch t \<le> t_epoch now \<and> t_year now - 1 \<le> t_year t)
        \<longrightarrow> length (fst (obter_dados_dpa now resposta tk anos)) = nat anos"
    by auto
  from p1 p2 p3' p4 p5 show ?thesis by blast
qed

lemma upto_2021_2026: "[2021..2026::int] = [2021, 2022, 2023, 2024, 2025, 2026]"
  by (simp add: upto_rec1)

lemma obter_dados_dpa_example:
  "obter_dados_dpa \<lparr>t_epoch = 1793718000, t_year = 2026, t_month = 11\<rparr>
     (Inr [(\<lparr>t_epoch = 1638370800, t_year = 2021, t_month = 12\<rparr>, 1),
           (\<lparr>t_epoch = 1686841200, t_year = 2023, t_month = 6\<rparr>, 2),
           (\<lparr>t_epoch = 1741618800, t_year = 2025, t_month = 3\<rparr>, 3),
           (\<lparr>t_epoch = 1777993200, t_year = 2026, t_month = 5\<rparr>, 4)]) ''X'' 5
   = ([\<lparr>Ano = 2021, DPA = 1, Ticker = ''X''\<rparr>, \<lparr>Ano = 2022, DPA = 0, Ticker = ''X''\<rparr>,
       \<lparr>Ano = 2023, DPA = 2, Ticker = ''X''\<rparr>, \<lparr>Ano = 2024, DPA = 0, Ticker = ''X''\<rparr>,
       \<lparr>Ano = 2025, DPA = 3, Ticker = ''X''\<rparr>], 6 / 5, 1, None)"
proof -
  let ?ds = "[(\<lparr>t_epoch = 1638370800, t_year = 2021, t_month = 12\<rparr>, 1::real),
           (\<lparr>t_epoch = 1686841200, t_year = 2023, t_month = 6\<rparr>, 2),
           (\<lparr>t_epoch = 1741618800, t_year = 2025, t_month = 3\<rparr>, 3),
           (\<lparr>t_epoch = 1777993200, t_year = 2026, t_month = 5\<rparr>, 4)]"
  let ?now = "\<lparr>t_epoch = 1793718000, t_year = 2026, t_month = 11\<rparr>"
  let ?W = "[\<lparr>Ano = 2025, DPA = 3, Ticker = ''X''\<rparr>, \<lparr>Ano = 2024, DPA = 0, Ticker = ''X''\<rparr>,
       \<lparr>Ano = 2023, DPA = 2, Ticker = ''X''\<rparr>, \<lparr>Ano = 2022, DPA = 0, Ticker = ''X''\<rparr>,
       \<lparr>Ano = 2021, DPA = 1, Ticker = ''X''\<rparr>]"
  have f: "filter (\<lambda>(t, v). t_epoch ?now - timedelta_days (5 * 365) \<le> t_epoch t
                    \<and> t_epoch t \<le> t_epoch ?now) ?ds = ?ds"
    by (simp add: timedelta_days_def)
  have a: "resample_YE_sum ''X'' ?ds =
     [\<lparr>Ano = 2021, DPA = 1, Ticker = ''X''\<rparr>, \<lparr>Ano = 2022, DPA = 0, Ticker = ''X''\<rparr>,
       \<lparr>Ano = 2023, DPA = 2, Ticker = ''X''\<rparr>, \<lparr>Ano = 2024, DPA = 0, Ticker = ''X''\<rparr>,
       \<lparr>Ano = 2025, DPA = 3, Ticker = ''X''\<rparr>, \<lparr>Ano = 2026, DPA = 4, Ticker = ''X''\<rparr>]"
    by (simp add: resample_YE_sum_def Let_def upto_2021_2026)
  have w: "py_head 5 (sort_values_Ano False (filter (\<lambda>r. Ano r < t_year ?now)
               (resample_YE_sum ''X'' (filter (\<lambda>(t, v). t_epoch ?now - timedelta_days (5 * 365) \<le> t_epoch t
                    \<and> t_epoch t \<le> t_epoch ?now) ?ds)))) = ?W"
    unfolding f a by (simp add: sort_values_Ano_def py_head_def)
  have s: "sort_values_Ano True ?W = [\<lparr>Ano = 2021, DPA = 1, Ticker = ''X''\<rparr>, \<lparr>Ano = 2022, DPA = 0, Ticker = ''X''\<rparr>,
       \<lparr>Ano = 2023, DPA = 2, Ticker = ''X''\<rparr>, \<lparr>Ano = 2024, DPA = 0, Ticker = ''X''\<rparr>,
       \<lparr>Ano = 2025, DPA = 3, Ticker = ''X''\<rparr>]"
    by (simp add: sort_values_Ano_def)
  have m: "mean_list (map DPA ?W) = 6 / 5" by (simp add: mean_list_def)
  have d: "median_list (map DPA ?W) = 1" by (simp add: median_list_def)
  have ne: "?ds \<noteq> []" by simp
  show ?thesis
    unfolding obter_dados_dpa_Inr[OF ne] w Let_def s m d by simp
qed

theorem obter_dados_dpa_trimmed_witness:
  "(0::int) \<le> 5
   \<and> length (fst (obter_dados_dpa \<lparr>t_epoch = 1793718000, t_year = 2026, t_month = 11\<rparr>
     (Inr [(\<lparr>t_epoch = 1638370800, t_year = 2021, t_month = 12\<rparr>, 1),
           (\<lparr>t_epoch = 1686841200, t_year = 2023, t_month = 6\<rparr>, 2),
           (\<lparr>t_epoch = 1741618800, t_year = 2025, t_month = 3\<rparr>, 3),
           (\<lparr>t_epoch = 1777993200, t_year = 2026, t_month = 5\<rparr>, 4)]) ''X'' 5)) = 5
   \<and> fst (snd (obter_dados_dpa \<lparr>t_epoch = 1793718000, t_year = 2026, t_month = 11\<rparr>
     (Inr [(\<lparr>t_epoch = 1638370800, t_year = 2021, t_month = 12\<rparr>, 1),
           (\<lparr>t_epoch = 1686841200, t_year = 2023, t_month = 6\<rparr>, 2),
           (\<lparr>t_epoch = 1741618800, t_year = 2025, t_month = 3\<rparr>, 3),
           (\<lparr>t_epoch = 1777993200, t_year = 2026, t_month = 5\<rparr>, 4)]) ''X'' 5))
       = mean_list [1, 0, 2, 0, 3]
   \<and> fst (obter_dados_dpa \<lparr>t_epoch = 1793718000, t_year = 2026, t_month = 11\<rparr>
           (Inl GatewayError) ''X'' 5) = []
   \<and> fst (snd (obter_dados_dpa \<lparr>t_epoch = 1793718000, t_year = 2026, t_month = 11\<rparr>
           (Inl GatewayError) ''X'' 5)) = 0"
proof -
  let ?ds = "[(\<lparr>t_epoch = 1638370800, t_year = 2021, t_month = 12\<rparr>, 1::real),
           (\<lparr>t_epoch = 1686841200, t_year = 2023, t_month = 6\<rparr>, 2),
           (\<lparr>t_epoch = 1741618800, t_year = 2025, t_month = 3\<rparr>, 3),
           (\<lparr>t_epoch = 1777993200, t_year = 2026, t_month = 5\<rparr>, 4)]"
  let ?now = "\<lparr>t_epoch = 1793718000, t_year = 2026, t_month = 11\<rparr>"
  have n: "(0::int) \<le> 5" by simp
  note t = obter_dados_dpa_trimmed [OF n, of ?now "Inr ?ds" "''X''"]
  note u = obter_dados_dpa_trimmed [OF n, of ?now "Inl GatewayError" "''X''"]
  have h1: "\<exists>(t, v) \<in> set ?ds. t_epoch ?now - timedelta_days (5 * 365) \<le> t_epoch t
                \<and> t_epoch t \<le> t_epoch ?now \<and> t_year t \<le> t_year ?now - 5"
    by (simp add: timedelta_days_def)
  have h2: "\<exists>(t, v) \<in> set ?ds. t_epoch ?now - timedelta_days (5 * 365) \<le> t_epoch t
                \<and> t_epoch t \<le> t_epoch ?now \<and> t_year ?now - 1 \<le> t_year t"
    by (simp add: timedelta_days_def)
  from t h1 h2 have len: "length (fst (obter_dados_dpa ?now (Inr ?ds) ''X'' 5)) = nat 5"
    by blast
  then have ne: "fst (obter_dados_dpa ?now (Inr ?ds) ''X'' 5) \<noteq> []" by auto
  with t have "fst (snd (obter_dados_dpa ?now (Inr ?ds) ''X'' 5))
      = mean_list (map DPA (fst (obter_dados_dpa ?now (Inr ?ds) ''X'' 5)))" by blast
  then have me: "fst (snd (obter_dados_dpa ?now (Inr ?ds) ''X'' 5)) = mean_list [1, 0, 2, 0, 3]"
    by (simp add: obter_dados_dpa_example)
  have e: "fst (obter_dados_dpa ?now (Inl GatewayError) ''X'' 5) = []"
    by (simp add: obter_dados_dpa_def)
  with u have z: "fst (snd (obter_dados_dpa ?now (Inl GatewayError) ''X'' 5)) = 0" by blast
  from n len me e z show ?thesis by simp
qed

subsection \<open>Current price\<close>

text \<open>
  Claim C10. For every provider fundamentals mapping, \<open>obter_preco_atual\<close> returns the
  regular-market-price field when it is a nonzero number; when that field is absent,
  \<open>None\<close> or exactly 0 it returns the current-price field if that is a nonzero number,
  and 0 if that is absent, \<open>None\<close> or 0 too. A regular market price of exactly 0 (or
  \<open>None\<close>) gives the same result as an absent field, whatever the rest of the mapping.
\<close>

theorem obter_preco_atual_fallthrough:
  assumes "gw_info gw = Inr info"
  shows "(\<forall>x. info ''regularMarketPrice'' = Some (INum x) \<and> x \<noteq> 0 \<longrightarrow> obter_preco_atual gw = x)
    \<and> (\<forall>y. info ''regularMarketPrice'' \<in> {None, Some INone, Some (INum 0)}
            \<and> info ''currentPrice'' = Some (INum y) \<and> y \<noteq> 0 \<longrightarrow> obter_preco_atual gw = y)
    \<and> (info ''regularMarketPrice'' \<in> {None, Some INone, Some (INum 0)}
            \<and> info ''currentPrice'' \<in> {None, Some INone, Some (INum 0)} \<longrightarrow> obter_preco_atual gw = 0)
    \<and> obter_preco_atual (gw\<lparr>gw_info := Inr (info(''regularMarketPrice'' \<mapsto> INum 0))\<rparr>)
        = obter_preco_atual (gw\<lparr>gw_info := Inr (info(''regularMarketPrice'' := None))\<rparr>)
    \<and> obter_preco_atual (gw\<lparr>gw_info := Inr (info(''regularMarketPrice'' \<mapsto> INone))\<rparr>)
        = obter_preco_atual (gw\<lparr>gw_info := Inr (info(''regularMarketPrice'' := None))\<rparr>)"
  using assms
  by (auto simp: obter_preco_atual_def info_get_def py_or_def Let_def split: option.splits)

theorem obter_preco_atual_fallthrough_witness:
  "obter_preco_atual \<lparr>gw_info = Inr [''regularMarketPrice'' \<mapsto> INum 0, ''currentPrice'' \<mapsto> INum 31],
       gw_dividends = Inr [], gw_history = Inr [], gw_balance_sheet = Inr None,
       gw_financials = Inr None, gw_cashflow = Inr None\<rparr> = 31
   \<and> obter_preco_atual \<lparr>gw_info = Inr [''regularMarketPrice'' \<mapsto> INum 30, ''currentPrice'' \<mapsto> INum 31],
       gw_dividends = Inr [], gw_history = Inr [], gw_balance_sheet = Inr None,
       gw_financials = Inr None, gw_cashflow = Inr None\<rparr> = 30
   \<and> obter_preco_atual \<lparr>gw_info = Inr [''regularMarketPrice'' \<mapsto> INum 0],
       gw_dividends = Inr [], gw_history = Inr [], gw_balance_sheet = Inr None,
       gw_financials = Inr None, gw_cashflow = Inr None\<rparr> = 0"
proof -
  let ?g = "\<lambda>i. \<lparr>gw_info = Inr i, gw_dividends = Inr [], gw_history = Inr [],
      gw_balance_sheet = Inr None, gw_financials = Inr None, gw_cashflow = Inr None\<rparr>"
  let ?i1 = "[''regularMarketPrice'' \<mapsto> INum 0, ''currentPrice'' \<mapsto> INum 31]"
  let ?i2 = "[''regularMarketPrice'' \<mapsto> INum 30, ''currentPrice'' \<mapsto> INum 31]"
  let ?i3 = "[''regularMarketPrice'' \<mapsto> INum 0]"
  have a1: "gw_info (?g ?i1) = Inr ?i1" by simp
  have a2: "gw_info (?g ?i2) = Inr ?i2" by simp
  have a3: "gw_info (?g ?i3) = Inr ?i3" by simp
  note t1 = obter_preco_atual_fallthrough [OF a1]
  note t2 = obter_preco_atual_fallthrough [OF a2]
  note t3 = obter_preco_atual_fallthrough [OF a3]
  have "obter_preco_atual (?g ?i1) = 31"
    using t1 [THEN conjunct2, THEN conjunct1, THEN spec, of 31] by simp
  moreover have "obter_preco_atual (?g ?i2) = 30"
    using t2 [THEN conjunct1, THEN spec, of 30] by simp
  moreover have "obter_preco_atual (?g ?i3) = 0"
    using t3 [THEN conjunct2, THEN conjunct2, THEN conjunct1] by simp
  ultimately show ?thesis by simp
qed

subsection \<open>Debt-to-EBITDA fallback\<close>

lemma fallback_divida_pl_acessos: "snd (fallback_divida_pl gw) = [ABalanceSheet]"
  by (simp add: fallback_divida_pl_def split: sum.splits)


lemma fallback_divida_ebitda_example:
  "fallback_divida_ebitda
     \<lparr>gw_info = i, gw_dividends = d, gw_history = h,
      gw_balance_sheet = Inr (Some \<lparr>colunas = [20241231], linhas = [(''Total Debt'', [Some 100])]\<rparr>),
      gw_financials = Inr (Some \<lparr>colunas = [20241231], linhas = [(''EBIT'', [Some 20])]\<rparr>),
      gw_cashflow = Inr (Some \<lparr>colunas = [20241231], linhas = [(''Depreciation'', [Some (- 5)])]\<rparr>)\<rparr>
   = (PNum 4, [ABalanceSheet, AFinancials, ACashflow])"
  by (simp add: fallback_divida_ebitda_def divida_ebitda_demonstracoes_def usable_def tb_empty_def
      primeira_chave_def in_index_def chaves_divida_def chaves_ebit_def chaves_da_def
      loc_iloc0_def tb_loc_def iloc0_def nan_add_def nan_abs_def nan_div_def cell_truthy_def)

text \<open>
  Claim C5. For every provider response whose \<open>debtToEbitda\<close> field is present (not
  \<open>None\<close>), \<open>obter_dados_fundamentalistas\<close> returns that value unchanged as
  Divida/EBITDA and reads neither the income statement nor the cash-flow statement,
  whatever the statements hold: the only reads are the info and, when the
  debt-to-equity fallback runs, one read of the balance sheet. When the field is absent
  the value is the one of the statement-based fallback, which reads the balance sheet.
\<close>

theorem divida_ebitda_primary_wins:
  assumes "gw_info gw = Inr info"
  shows "(info_get info ''debtToEbitda'' \<noteq> INone \<longrightarrow>
            Divida_EBITDA (fst (obter_dados_fundamentalistas gw tk))
              = of_info (info_get info ''debtToEbitda'')
            \<and> AFinancials \<notin> set (snd (obter_dados_fundamentalistas gw tk))
            \<and> ACashflow \<notin> set (snd (obter_dados_fundamentalistas gw tk))
            \<and> (snd (obter_dados_fundamentalistas gw tk) = [AInfo]
               \<or> snd (obter_dados_fundamentalistas gw tk) = [AInfo, ABalanceSheet]))
       \<and> (info_get info ''debtToEbitda'' = INone \<longrightarrow>
            Divida_EBITDA (fst (obter_dados_fundamentalistas gw tk)) = fst (fallback_divida_ebitda gw)
            \<and> ABalanceSheet \<in> set (snd (obter_dados_fundamentalistas gw tk)))"
proof -
  obtain dp ap where pl: "(if (if info_get info ''debtToEquity'' \<noteq> INone
                 then (case py_float (info_get info ''debtToEquity'') of
                         Inl e \<Rightarrow> PNone
                       | Inr x \<Rightarrow> PNum (x / 100))
                 else PNone) = PNone then fallback_divida_pl gw else ((if info_get info ''debtToEquity'' \<noteq> INone
                 then (case py_float (info_get info ''debtToEquity'') of
                         Inl e \<Rightarrow> PNone
                       | Inr x \<Rightarrow> PNum (x / 100))
                 else PNone), [])) = (dp, ap)"
    by (metis surj_pair)
  then have ap: "ap = [] \<or> ap = [ABalanceSheet]"
    using fallback_divida_pl_acessos[of gw] by (auto split: if_splits)
  obtain de ae where eb: "fallback_divida_ebitda gw = (de, ae)" by (metis surj_pair)
  have ae: "ABalanceSheet \<in> set ae"
    using eb by (auto simp: fallback_divida_ebitda_def split: sum.splits)
  have np: "of_info v = PNone \<longleftrightarrow> v = INone" for v by (cases v) auto
  show ?thesis
    using assms pl ap eb ae
    by (auto simp: obter_dados_fundamentalistas_def Let_def np)
qed

theorem divida_ebitda_primary_wins_witness:
  "Divida_EBITDA (fst (obter_dados_fundamentalistas
     \<lparr>gw_info = Inr [''debtToEbitda'' \<mapsto> INum 2], gw_dividends = Inr [], gw_history = Inr [],
      gw_balance_sheet = Inr (Some \<lparr>colunas = [20241231], linhas = [(''Total Debt'', [Some 100])]\<rparr>),
      gw_financials = Inr (Some \<lparr>colunas = [20241231], linhas = [(''EBIT'', [Some 20])]\<rparr>),
      gw_cashflow = Inr (Some \<lparr>colunas = [20241231], linhas = [(''Depreciation'', [Some (- 5)])]\<rparr>)\<rparr>
     ''X'')) = PNum 2
   \<and> AFinancials \<notin> set (snd (obter_dados_fundamentalistas
     \<lparr>gw_info = Inr [''debtToEbitda'' \<mapsto> INum 2], gw_dividends = Inr [], gw_history = Inr [],
      gw_balance_sheet = Inr (Some \<lparr>colunas = [20241231], linhas = [(''Total Debt'', [Some 100])]\<rparr>),
      gw_financials = Inr (Some \<lparr>colunas = [20241231], linhas = [(''EBIT'', [Some 20])]\<rparr>),
      gw_cashflow = Inr (Some \<lparr>colunas = [20241231], linhas = [(''Depreciation'', [Some (- 5)])]\<rparr>)\<rparr>
     ''X''))
   \<and> Divida_EBITDA (fst (obter_dados_fundamentalistas
     \<lparr>gw_info = Inr Map.empty, gw_dividends = Inr [], gw_history = Inr [],
      gw_balance_sheet = Inr (Some \<lparr>colunas = [20241231], linhas = [(''Total Debt'', [Some 100])]\<rparr>),
      gw_financials = Inr (Some \<lparr>colunas = [20241231], linhas = [(''EBIT'', [Some 20])]\<rparr>),
      gw_cashflow = Inr (Some \<lparr>colunas = [20241231], linhas = [(''Depreciation'', [Some (- 5)])]\<rparr>)\<rparr>
     ''X'')) = PNum 4"
proof -
  let ?g = "\<lambda>i. \<lparr>gw_info = Inr i, gw_dividends = Inr [], gw_history = Inr [],
      gw_balance_sheet = Inr (Some \<lparr>colunas = [20241231], linhas = [(''Total Debt'', [Some 100])]\<rparr>),
      gw_financials = Inr (Some \<lparr>colunas = [20241231], linhas = [(''EBIT'', [Some 20])]\<rparr>),
      gw_cashflow = Inr (Some \<lparr>colunas = [20241231], linhas = [(''Depreciation'', [Some (- 5)])]\<rparr>)\<rparr>"
  let ?i1 = "[''debtToEbitda'' \<mapsto> INum 2]"
  let ?i2 = "Map.empty :: info"
  have a1: "gw_info (?g ?i1) = Inr ?i1" by simp
  have a2: "gw_info (?g ?i2) = Inr ?i2" by simp
  have p1: "info_get ?i1 ''debtToEbitda'' \<noteq> INone" by (simp add: info_get_def)
  have p2: "info_get ?i2 ''debtToEbitda'' = INone" by (simp add: info_get_def)
  note t1 = divida_ebitda_primary_wins [OF a1, of "''X''", THEN conjunct1, THEN mp, OF p1]
  note t2 = divida_ebitda_primary_wins [OF a2, of "''X''", THEN conjunct2, THEN mp, OF p2]
  have v1: "of_info (info_get ?i1 ''debtToEbitda'') = PNum 2" by (simp add: info_get_def)
  from t1 v1 have c1: "Divida_EBITDA (fst (obter_dados_fundamentalistas (?g ?i1) ''X'')) = PNum 2"
    by (simp only:)
  from t1 have c2: "AFinancials \<notin> set (snd (obter_dados_fundamentalistas (?g ?i1) ''X''))"
    by (elim conjE)
  from t2 have c3: "Divida_EBITDA (fst (obter_dados_fundamentalistas (?g ?i2) ''X'')) = PNum 4"
    by (simp only: fallback_divida_ebitda_example fst_conv)
  from c1 c2 c3 show ?thesis by (intro conjI)
qed

subsection \<open>Growth of revenue and of net income\<close>

lemma primeira_chave_loc:
  assumes "primeira_chave df chaves = Some chave"
  shows "\<exists>linha. tb_loc df chave = Inr linha"
proof -
  from assms have "in_index df chave"
    unfolding primeira_chave_def by (auto simp: find_Some_iff)
  then have "chave \<in> fst ` set (linhas df)" by (simp add: in_index_def)
  then obtain cells where "map_of (linhas df) chave = Some cells"
    by (metis domD dom_map_of_conv_image_fst)
  then show ?thesis by (simp add: tb_loc_def)
qed

lemma calcular_cagr_no_error: "\<exists>v. calcular_cagr years df chaves = Inr v"
proof (cases "primeira_chave df chaves")
  case None
  then show ?thesis by (simp add: calcular_cagr_def)
next
  case (Some chave)
  from primeira_chave_loc[OF Some] obtain linha where "tb_loc df chave = Inr linha" by blast
  with Some show ?thesis by (simp add: calcular_cagr_def Let_def)
qed

lemma py_slice_from_trailing:
  "0 \<le> years \<Longrightarrow> py_slice_from (- years - 1) xs = drop (length xs - nat (years + 1)) xs"
  by (simp add: py_slice_from_def) (smt (verit) nat_0_le nat_int)

text \<open>
  Claim C8, as the code has it. For revenue and for net income independently, the metric
  is looked up in the statement table under its accepted name, the trailing \<open>years + 1\<close>
  points are taken and the missing ones among them dropped; the result is \<open>None\<close> when
  fewer than 2 points remain or when the starting value is exactly 0, and otherwise (for
  a positive ratio) it is \<open>(final / initial) ^ (1 / periods) - 1\<close> with one period less than
  points; a ratio of 0 gives -1, a negative ratio gives the ratio minus 1 with one period
  and NaN with more. With a starting value that is not negative this is what the
  specification says.
\<close>

theorem calcular_cagr_nonzero_start:
  assumes "0 \<le> years"
    and "primeira_chave df chaves = Some chave"
    and "tb_loc df chave = Inr linha"
    and "pts = dropna (drop (length linha - nat (years + 1)) (sort_index linha))"
  shows "(length pts < 2 \<or> snd (hd pts) = 0 \<longrightarrow> calcular_cagr years df chaves = Inr PNone)
    \<and> (2 \<le> length pts \<and> snd (hd pts) \<noteq> 0 \<and> 0 < snd (last pts) / snd (hd pts) \<longrightarrow>
         calcular_cagr years df chaves
           = Inr (PNum ((snd (last pts) / snd (hd pts)) powr (1 / real (length pts - 1)) - 1)))
    \<and> (2 \<le> length pts \<and> snd (hd pts) \<noteq> 0 \<and> snd (last pts) = 0 \<longrightarrow>
         calcular_cagr years df chaves = Inr (PNum (- 1)))
    \<and> (length pts = 2 \<and> snd (hd pts) \<noteq> 0 \<and> snd (last pts) / snd (hd pts) < 0 \<longrightarrow>
         calcular_cagr years df chaves = Inr (PNum (snd (last pts) / snd (hd pts) - 1)))
    \<and> (2 < length pts \<and> snd (hd pts) \<noteq> 0 \<and> snd (last pts) / snd (hd pts) < 0 \<longrightarrow>
         calcular_cagr years df chaves = Inr PNaN)
    \<and> (length pts < 2 \<or> 0 \<le> snd (hd pts) \<longrightarrow>
         calcular_cagr years df chaves = cagr_spec years df chaves)
    \<and> (\<forall>gw fin. gw_financials gw = Inr (Some fin) \<and> \<not> tb_empty fin \<longrightarrow>
         Inr (fst (obter_dados_cagr gw years)) = calcular_cagr years fin [''Total Revenue'']
         \<and> Inr (snd (obter_dados_cagr gw years)) = calcular_cagr years fin [''Net Income''])"
proof -
  have s: "dropna (py_slice_from (- years - 1) (sort_index linha)) = pts"
    using assms(1,4) by (simp add: py_slice_from_trailing sort_index_def)
  have a: "calcular_cagr years df chaves = Inr PNone" if "length pts < 2 \<or> snd (hd pts) = 0"
    using that assms(2,3) by (auto simp: calcular_cagr_def Let_def s)
  have b: "calcular_cagr years df chaves
           = Inr (PNum ((snd (last pts) / snd (hd pts)) powr (1 / real (length pts - 1)) - 1))"
    if "2 \<le> length pts \<and> snd (hd pts) \<noteq> 0 \<and> 0 < snd (last pts) / snd (hd pts)"
    using that assms(2,3) by (simp add: calcular_cagr_def Let_def s np_root_def)
  have b0: "calcular_cagr years df chaves = Inr (PNum (- 1))"
    if "2 \<le> length pts \<and> snd (hd pts) \<noteq> 0 \<and> snd (last pts) = 0"
    using that assms(2,3) by (simp add: calcular_cagr_def Let_def s np_root_def)
  have b1: "calcular_cagr years df chaves = Inr (PNum (snd (last pts) / snd (hd pts) - 1))"
    if "length pts = 2 \<and> snd (hd pts) \<noteq> 0 \<and> snd (last pts) / snd (hd pts) < 0"
    using that assms(2,3) by (simp add: calcular_cagr_def Let_def s np_root_def)
  have b2: "calcular_cagr years df chaves = Inr PNaN"
    if h: "2 < length pts \<and> snd (hd pts) \<noteq> 0 \<and> snd (last pts) / snd (hd pts) < 0"
  proof -
    from h have n: "length pts - 1 \<noteq> 1" and l: "\<not> length pts < 2" by auto
    from h have r: "\<not> 0 < snd (last pts) / snd (hd pts)" "snd (last pts) / snd (hd pts) \<noteq> 0"
      by auto
    from h have i: "snd (hd pts) \<noteq> 0" by simp
    have "np_root (snd (last pts) / snd (hd pts)) (length pts - 1) = None"
      using n r by (simp add: np_root_def)
    then show ?thesis
      using assms(2,3) l i by (simp add: calcular_cagr_def Let_def s)
  qed
  have c: "calcular_cagr years df chaves = cagr_spec years df chaves"
    if "length pts < 2 \<or> 0 \<le> snd (hd pts)"
    using that assms(2,3) by (auto simp: calcular_cagr_def cagr_spec_def Let_def s)
  have d: "Inr (fst (obter_dados_cagr gw years)) = calcular_cagr years fin [''Total Revenue'']
         \<and> Inr (snd (obter_dados_cagr gw years)) = calcular_cagr years fin [''Net Income'']"
    if "gw_financials gw = Inr (Some fin) \<and> \<not> tb_empty fin" for gw fin
  proof -
    from calcular_cagr_no_error[of years fin "[''Total Revenue'']"]
    obtain r where r: "calcular_cagr years fin [''Total Revenue''] = Inr r" by blast
    from calcular_cagr_no_error[of years fin "[''Net Income'']"]
    obtain l where l: "calcular_cagr years fin [''Net Income''] = Inr l" by blast
    from that r l show ?thesis by (simp add: obter_dados_cagr_def usable_def)
  qed
  from a b b0 b1 b2 c d show ?thesis by blast
qed

theorem calcular_cagr_nonzero_start_witness:
  "(0::int) \<le> 5
   \<and> primeira_chave \<lparr>colunas = [20241231, 20231231],
         linhas = [(''Total Revenue'', [Some 121, Some 100])]\<rparr> [''Total Revenue''] = Some ''Total Revenue''
   \<and> calcular_cagr 5 \<lparr>colunas = [20241231, 20231231],
         linhas = [(''Total Revenue'', [Some 121, Some 100])]\<rparr> [''Total Revenue'']
       = Inr (PNum (21 / 100))
   \<and> calcular_cagr 5 \<lparr>colunas = [20241231, 20231231],
         linhas = [(''Total Revenue'', [Some 121, Some 0])]\<rparr> [''Total Revenue'']
       = Inr PNone"
proof -
  let ?df = "\<lparr>colunas = [20241231, 20231231],
         linhas = [(''Total Revenue'', [Some 121, Some 100])]\<rparr>"
  let ?dz = "\<lparr>colunas = [20241231, 20231231],
         linhas = [(''Total Revenue'', [Some 121, Some 0])]\<rparr>"
  let ?pts = "[(20231231, 100), (20241231, 121)] :: (int \<times> real) list"
  let ?ptz = "[(20231231, 0), (20241231, 121)] :: (int \<times> real) list"
  have y: "(0::int) \<le> 5" by simp
  have k: "primeira_chave ?df [''Total Revenue''] = Some ''Total Revenue''"
    by (simp add: primeira_chave_def in_index_def)
  have l: "tb_loc ?df ''Total Revenue'' = Inr [(20241231, Some 121), (20231231, Some 100)]"
    by (simp add: tb_loc_def)
  have p: "?pts = dropna (drop (length [(20241231::int, Some (121::real)), (20231231, Some 100)] - nat (5 + 1))
                      (sort_index [(20241231, Some 121), (20231231, Some 100)]))"
    by (simp add: sort_index_def dropna_def)
  have kz: "primeira_chave ?dz [''Total Revenue''] = Some ''Total Revenue''"
    by (simp add: primeira_chave_def in_index_def)
  have lz: "tb_loc ?dz ''Total Revenue'' = Inr [(20241231, Some 121), (20231231, Some 0)]"
    by (simp add: tb_loc_def)
  have pz: "?ptz = dropna (drop (length [(20241231::int, Some (121::real)), (20231231, Some 0)] - nat (5 + 1))
                      (sort_index [(20241231, Some 121), (20231231, Some 0)]))"
    by (simp add: sort_index_def dropna_def)
  have a: "calcular_cagr 5 ?df [''Total Revenue''] = Inr (PNum (21 / 100))"
    using calcular_cagr_nonzero_start [OF y k l p, THEN conjunct2, THEN conjunct1] by simp
  have b: "calcular_cagr 5 ?dz [''Total Revenue''] = Inr PNone"
    using calcular_cagr_nonzero_start [OF y kz lz pz, THEN conjunct1] by simp
  from y k a b show ?thesis by (intro conjI)
qed

text \<open>
  Claim C8, as stated, fails: with the two points -100 and -50 the starting value is not
  strictly positive, and \<open>calcular_cagr\<close> returns -0.5 instead of \<open>None\<close>.
\<close>

theorem calcular_cagr_negative_start:
  "calcular_cagr 5 \<lparr>colunas = [20241231, 20231231],
                     linhas = [(''Total Revenue'', [Some (- 50), Some (- 100)])]\<rparr> [''Total Revenue'']
     = Inr (PNum (- (1 / 2)))
   \<and> cagr_spec 5 \<lparr>colunas = [20241231, 20231231],
                    linhas = [(''Total Revenue'', [Some (- 50), Some (- 100)])]\<rparr> [''Total Revenue'']
     = Inr PNone"
  by (simp add: calcular_cagr_def cagr_spec_def primeira_chave_def in_index_def tb_loc_def
      sort_index_def py_slice_from_def dropna_def np_root_def Let_def)

subsection \<open>The batch\<close>

lemma processar_ticker_Ticker:
  "v_Ticker (r_v (processar_ticker gw now ticker anos taxa)) = ticker"
  by (simp add: processar_ticker_def resultado_minimo_def Let_def split: prod.splits sum.splits)

lemma processar_ticker_all_raise:
  assumes "isl (gw_info gw)" and "isl (gw_dividends gw)" and "isl (gw_history gw)"
    and "isl (gw_financials gw)"
  shows "processar_ticker gw now ticker anos taxa = resultado_minimo ticker"
proof -
  from assms obtain e1 e2 e3 e4 where e: "gw_info gw = Inl e1" "gw_dividends gw = Inl e2"
    "gw_history gw = Inl e3" "gw_financials gw = Inl e4"
    by (auto simp: isl_def)
  have d: "obter_dados_dpa now (gw_dividends gw) ticker anos = ([], 0, 0, Some e2)"
    by (simp add: obter_dados_dpa_def e)
  have f: "fst (obter_dados_fundamentalistas gw ticker) = so_ticker ticker"
    by (simp add: obter_dados_fundamentalistas_def e)
  have c: "obter_dados_cagr gw 5 = (PNone, PNone)"
    by (simp add: obter_dados_cagr_def e)
  have s: "obter_sazonalidade_e_dividendos gw anos = (''Erro'', ''Erro'')"
    by (simp add: obter_sazonalidade_e_dividendos_def e)
  have p: "obter_preco_atual gw = 0"
    by (simp add: obter_preco_atual_def e)
  have u: "(so_ticker ticker)\<lparr>CAGR_Receita_5a := PNone, CAGR_Lucro_5a := PNone\<rparr> = so_ticker ticker"
    by (simp add: so_ticker_def)
  have g: "calcular_preco_graham (LPA (so_ticker ticker)) (VPA (so_ticker ticker)) = Inr 0"
    by (simp add: calcular_preco_graham_def so_ticker_def)
  have b: "calcular_preco_teto_bazin 0 taxa = 0"
    by (simp add: calcular_preco_teto_bazin_def)
  have m: "calcular_margem_seguranca 0 0 = - 100"
    by (simp add: calcular_margem_seguranca_def)
  have k: "calcular_cagr_dpa (t_year now) [] anos = 0"
    by (simp add: calcular_cagr_dpa_def)
  have y: "calcular_payout_ratio (so_ticker ticker) = 0"
    by (simp add: calcular_payout_ratio_def so_ticker_def py_or_def)
  have a: "calcular_anos_consecutivos (t_year now) [] = 0"
    by (simp add: calcular_anos_consecutivos_def)
  show ?thesis
    unfolding processar_ticker_def d f c s p Let_def
    by (simp add: u g b m k y a resultado_minimo_def)
qed

lemma fold_recolher_valuation:
  "data_valuation (fold (\<lambda>k acc. recolher (F k) acc) ordem acc0)
     = data_valuation acc0 @ map (\<lambda>k. r_v (F k)) ordem"
  by (induction ordem arbitrary: acc0) (simp_all add: recolher_def)

lemma processar_lote_valuation:
  "data_valuation (processar_lote provedor now tickers anos taxa ordem)
     = map (\<lambda>k. r_v (processar_ticker (provedor (tickers ! k)) now (tickers ! k) anos (taxa / 100))) ordem"
  by (simp add: processar_lote_def Let_def fold_recolher_valuation acumuladores_vazios_def)

lemma mset_map_perm_nth:
  assumes "mset ordem = mset [0..<length xs]"
  shows "mset (map (\<lambda>k. G (xs ! k)) ordem) = mset (map G xs)"
proof -
  have "mset (map (\<lambda>k. G (xs ! k)) ordem) = image_mset (\<lambda>k. G (xs ! k)) (mset ordem)" by simp
  also have "\<dots> = image_mset (\<lambda>k. G (xs ! k)) (mset [0..<length xs])" by (simp only: assms)
  also have "\<dots> = mset (map (\<lambda>k. G (xs ! k)) [0..<length xs])" by simp
  also have "map (\<lambda>k. G (xs ! k)) [0..<length xs] = map G (map (\<lambda>k. xs ! k) [0..<length xs])"
    by simp
  also have "map (\<lambda>k. xs ! k) [0..<length xs] = xs" by (rule map_nth)
  finally show ?thesis .
qed

lemma length_filter_count:
  "length (filter (\<lambda>r. f r = t) xs) = count (mset (map f xs)) t"
  by (induction xs) auto

text \<open>
  Claim C1, as the code has it. For every list of tickers and every order in which the
  futures complete, the batch ends with exactly one valuation row for each entry of the
  list, each computed by \<open>processar_ticker\<close> from the provider's answers for its own
  ticker: a ticker has as many rows as it has entries in the list, and exactly one when
  the list has no repeated ticker. When every read of the provider raises for one
  ticker, its result is the fully defaulted one: price 0, ceiling 0, Graham 0, margin of
  safety -100, the ticker preserved. Every function of the embedding is total, so the
  batch always completes.
\<close>

theorem processar_lote_one_result_per_entry:
  assumes "mset ordem = mset [0..<length tickers]"
  shows "mset (data_valuation (processar_lote provedor now tickers anos taxa ordem))
           = mset (map (\<lambda>t. r_v (processar_ticker (provedor t) now t anos (taxa / 100))) tickers)
    \<and> mset (map v_Ticker (data_valuation (processar_lote provedor now tickers anos taxa ordem)))
           = mset tickers
    \<and> length (data_valuation (processar_lote provedor now tickers anos taxa ordem)) = length tickers
    \<and> (distinct tickers \<longrightarrow>
         (\<forall>t \<in> set tickers.
            length (filter (\<lambda>r. v_Ticker r = t)
                     (data_valuation (processar_lote provedor now tickers anos taxa ordem))) = 1))
    \<and> (\<forall>t \<in> set tickers.
          isl (gw_info (provedor t)) \<and> isl (gw_dividends (provedor t))
          \<and> isl (gw_history (provedor t)) \<and> isl (gw_financials (provedor t))
          \<and> isl (gw_balance_sheet (provedor t)) \<and> isl (gw_cashflow (provedor t)) \<longrightarrow>
          processar_ticker (provedor t) now t anos (taxa / 100) = resultado_minimo t
          \<and> r_v (resultado_minimo t) \<in> set (data_valuation (processar_lote provedor now tickers anos taxa ordem))
          \<and> v_Ticker (r_v (resultado_minimo t)) = t
          \<and> Preco_Atual (r_v (resultado_minimo t)) = 0
          \<and> Preco_Teto_Bazin (r_v (resultado_minimo t)) = 0
          \<and> Preco_Graham (r_v (resultado_minimo t)) = 0
          \<and> Margem_Seguranca (r_v (resultado_minimo t)) = - 100)"
proof -
  let ?L = "data_valuation (processar_lote provedor now tickers anos taxa ordem)"
  let ?R = "\<lambda>t. r_v (processar_ticker (provedor t) now t anos (taxa / 100))"
  have p1: "mset ?L = mset (map ?R tickers)"
    unfolding processar_lote_valuation using assms by (rule mset_map_perm_nth)
  have "mset (map v_Ticker ?L) = image_mset v_Ticker (mset ?L)" by simp
  also have "\<dots> = image_mset v_Ticker (mset (map ?R tickers))" by (simp only: p1)
  also have "\<dots> = mset tickers"
    by (simp add: multiset.map_comp comp_def processar_ticker_Ticker)
  finally have p2: "mset (map v_Ticker ?L) = mset tickers" .
  have "size (mset ?L) = size (mset (map ?R tickers))" by (simp only: p1)
  then have p3: "length ?L = length tickers" by simp
  have p4: "length (filter (\<lambda>r. v_Ticker r = t) ?L) = 1" if d: "distinct tickers" and t: "t \<in> set tickers" for t
  proof -
    have "length (filter (\<lambda>r. v_Ticker r = t) ?L) = count (mset (map v_Ticker ?L)) t"
      by (rule length_filter_count)
    also have "\<dots> = count (mset tickers) t" by (simp only: p2)
    also have "\<dots> = 1" using d t by (simp add: distinct_count_atmost_1)
    finally show ?thesis .
  qed
  have p5: "processar_ticker (provedor t) now t anos (taxa / 100) = resultado_minimo t
          \<and> r_v (resultado_minimo t) \<in> set ?L
          \<and> v_Ticker (r_v (resultado_minimo t)) = t
          \<and> Preco_Atual (r_v (resultado_minimo t)) = 0
          \<and> Preco_Teto_Bazin (r_v (resultado_minimo t)) = 0
          \<and> Preco_Graham (r_v (resultado_minimo t)) = 0
          \<and> Margem_Seguranca (r_v (resultado_minimo t)) = - 100"
    if t: "t \<in> set tickers" and r: "isl (gw_info (provedor t)) \<and> isl (gw_dividends (provedor t))
          \<and> isl (gw_history (provedor t)) \<and> isl (gw_financials (provedor t))
          \<and> isl (gw_balance_sheet (provedor t)) \<and> isl (gw_cashflow (provedor t))" for t
  proof -
    from r have e: "processar_ticker (provedor t) now t anos (taxa / 100) = resultado_minimo t"
      by (intro processar_ticker_all_raise) simp_all
    from t have "?R t \<in> set (map ?R tickers)" by simp
    moreover have "set ?L = set (map ?R tickers)" using p1 by (rule mset_eq_setD)
    ultimately have "?R t \<in> set ?L" by simp
    with e show ?thesis by (simp add: resultado_minimo_def)
  qed
  from p1 p2 p3 p4 p5 show ?thesis by blast
qed

theorem processar_lote_one_result_per_entry_witness:
  "mset [1, 0] = mset [0..<length [''A'', ''B'']]
   \<and> distinct [''A'', ''B'']
   \<and> length (data_valuation (processar_lote
        (\<lambda>t. if t = ''A''
              then \<lparr>gw_info = Inl GatewayError, gw_dividends = Inl GatewayError,
                    gw_history = Inl GatewayError, gw_balance_sheet = Inl GatewayError,
                    gw_financials = Inl GatewayError, gw_cashflow = Inl GatewayError\<rparr>
              else \<lparr>gw_info = Inr [''regularMarketPrice'' \<mapsto> INum 30], gw_dividends = Inr [],
                    gw_history = Inr [], gw_balance_sheet = Inr None,
                    gw_financials = Inr None, gw_cashflow = Inr None\<rparr>)
        \<lparr>t_epoch = 1793718000, t_year = 2026, t_month = 11\<rparr> [''A'', ''B''] 5 6 [1, 0])) = 2
   \<and> length (filter (\<lambda>r. v_Ticker r = ''A'') (data_valuation (processar_lote
        (\<lambda>t. if t = ''A''
              then \<lparr>gw_info = Inl GatewayError, gw_dividends = Inl GatewayError,
                    gw_history = Inl GatewayError, gw_balance_sheet = Inl GatewayError,
                    gw_financials = Inl GatewayError, gw_cashflow = Inl GatewayError\<rparr>
              else \<lparr>gw_info = Inr [''regularMarketPrice'' \<mapsto> INum 30], gw_dividends = Inr [],
                    gw_history = Inr [], gw_balance_sheet = Inr None,
                    gw_financials = Inr None, gw_cashflow = Inr None\<rparr>)
        \<lparr>t_epoch = 1793718000, t_year = 2026, t_month = 11\<rparr> [''A'', ''B''] 5 6 [1, 0]))) = 1
   \<and> r_v (resultado_minimo ''A'') \<in> set (data_valuation (processar_lote
        (\<lambda>t. if t = ''A''
              then \<lparr>gw_info = Inl GatewayError, gw_dividends = Inl GatewayError,
                    gw_history = Inl GatewayError, gw_balance_sheet = Inl GatewayError,
                    gw_financials = Inl GatewayError, gw_cashflow = Inl GatewayError\<rparr>
              else \<lparr>gw_info = Inr [''regularMarketPrice'' \<mapsto> INum 30], gw_dividends = Inr [],
                    gw_history = Inr [], gw_balance_sheet = Inr None,
                    gw_financials = Inr None, gw_cashflow = Inr None\<rparr>)
        \<lparr>t_epoch = 1793718000, t_year = 2026, t_month = 11\<rparr> [''A'', ''B''] 5 6 [1, 0]))"
proof -
  let ?P = "\<lambda>t. if t = ''A''
              then \<lparr>gw_info = Inl GatewayError, gw_dividends = Inl GatewayError,
                    gw_history = Inl GatewayError, gw_balance_sheet = Inl GatewayError,
                    gw_financials = Inl GatewayError, gw_cashflow = Inl GatewayError\<rparr>
              else \<lparr>gw_info = Inr [''regularMarketPrice'' \<mapsto> INum 30], gw_dividends = Inr [],
                    gw_history = Inr [], gw_balance_sheet = Inr None,
                    gw_financials = Inr None, gw_cashflow = Inr None\<rparr>"
  let ?now = "\<lparr>t_epoch = 1793718000, t_year = 2026, t_month = 11\<rparr>"
  let ?L = "data_valuation (processar_lote ?P ?now [''A'', ''B''] 5 6 [1, 0])"
  have u: "[0..<length [''A'', ''B'']] = [0, 1]" by (simp add: upt_rec)
  have h: "mset [1, 0] = mset [0..<length [''A'', ''B'']]" unfolding u by simp
  have d: "distinct [''A'', ''B'']" by simp
  have a: "''A'' \<in> set [''A'', ''B'']" by simp
  have r: "isl (gw_info (?P ''A'')) \<and> isl (gw_dividends (?P ''A''))
          \<and> isl (gw_history (?P ''A'')) \<and> isl (gw_financials (?P ''A''))
          \<and> isl (gw_balance_sheet (?P ''A'')) \<and> isl (gw_cashflow (?P ''A''))" by simp
  note t = processar_lote_one_result_per_entry [OF h, of ?P ?now 5 6]
  from t have c3: "length ?L = length [''A'', ''B'']" by (elim conjE)
  from t d a have c4: "length (filter (\<lambda>r. v_Ticker r = ''A'') ?L) = 1" by blast
  from t a r have c5: "r_v (resultado_minimo ''A'') \<in> set ?L" by blast
  from h d c3 c4 c5 show ?thesis by simp
qed

text \<open>
  Claim C1, as stated, fails: the input \<open>A,A\<close> is accepted as the list A, A, and the
  batch ends with two rows for the ticker A.
\<close>

theorem processar_lote_repeated_identifier:
  "sanitizar_tickers ''A,A'' = [''A'', ''A'']
   \<and> length (filter (\<lambda>r. v_Ticker r = ''A'') (data_valuation (processar_lote
        (\<lambda>t. \<lparr>gw_info = Inl GatewayError, gw_dividends = Inl GatewayError,
               gw_history = Inl GatewayError, gw_balance_sheet = Inl GatewayError,
               gw_financials = Inl GatewayError, gw_cashflow = Inl GatewayError\<rparr>)
        \<lparr>t_epoch = 1793718000, t_year = 2026, t_month = 11\<rparr>
        (sanitizar_tickers ''A,A'') 5 6 [0, 1]))) = 2"
  by (simp add: sanitizar_tickers_A_A processar_lote_valuation processar_ticker_Ticker)

end
